theory Spec2Isabelle
  imports Complex_Main
begin

section \<open>Python values, exceptions and the statement monad\<close>

text \<open>
  The development embeds \<^verbatim>\<open>src/app.py\<close>, the Flask backend of the PDF-to-Word converter.
  Every function of the source that the properties below talk about becomes a HOL
  function of the same name. What the source does beyond returning a value is explicit:
  the module-level dictionaries, the Redis store and the two folders are fields of
  \<open>app_state\<close>; an exception is the \<open>Inl\<close> summand of a result; the outcome of
  every call into a library the repository does not contain (the engines, Redis, the
  clock, psutil, python-docx, uuid, werkzeug) is read from a \<open>world\<close> record, one field
  per call site, so that each run of a handler is a function of the request, the
  configuration, the world and the state before it.

  Conventions. Arabic message literals of the source are rendered by English glosses,
  since the text is restricted to ASCII. Instants and durations read from
  \<^verbatim>\<open>time.time()\<close> and \<^verbatim>\<open>os.path.getmtime\<close> are real numbers of seconds (the
  source has double-precision floats). A \<^verbatim>\<open>datetime\<close> is a naive local wall-clock
  time and a \<^verbatim>\<open>timedelta\<close> a duration, both whole numbers of microseconds, as
  Python holds them. Paths are POSIX paths.
\<close>

datatype exn =
    HTTPException nat string
  | KeyError string
  | ZeroDivisionError
  | PyException string

text \<open>
  \<open>HTTPException code message\<close> is what \<^verbatim>\<open>api.abort(code, message)\<close> raises: a
  werkzeug exception of the given status whose \<^verbatim>\<open>data\<close> holds the message that
  flask-restx puts into the response body. \<open>PyException text\<close> stands for every other
  exception, with \<^verbatim>\<open>str(e) = text\<close>. All four are subclasses of Python's
  \<^verbatim>\<open>Exception\<close>, so an \<^verbatim>\<open>except Exception\<close> clause catches each of them.
\<close>

datatype level = INFO | WARNING | ERROR

type_synonym log_entry = "level \<times> string"

type_synonym ('s, 'a) py = "'s \<Rightarrow> (exn + 'a) \<times> 's"

definition py_return :: "'a \<Rightarrow> ('s, 'a) py" where
  "py_return a s = (Inr a, s)"

definition py_raise :: "exn \<Rightarrow> ('s, 'a) py" where
  "py_raise e s = (Inl e, s)"

definition py_bind :: "('s, 'a) py \<Rightarrow> ('a \<Rightarrow> ('s, 'b) py) \<Rightarrow> ('s, 'b) py" where
  "py_bind m f s = (case m s of (Inl e, s') \<Rightarrow> (Inl e, s') | (Inr a, s') \<Rightarrow> f a s')"

definition py_then :: "('s, unit) py \<Rightarrow> ('s, 'b) py \<Rightarrow> ('s, 'b) py" where
  "py_then m k = py_bind m (\<lambda>_. k)"

text \<open>\<^verbatim>\<open>try: m except Exception as e: handler(e)\<close>\<close>

definition py_try :: "('s, 'a) py \<Rightarrow> (exn \<Rightarrow> ('s, 'a) py) \<Rightarrow> ('s, 'a) py" where
  "py_try m handler s = (case m s of (Inl e, s') \<Rightarrow> handler e s' | (Inr a, s') \<Rightarrow> (Inr a, s'))"

section \<open>Configuration, state and world\<close>

record config =
  PDF2DOCX_AVAILABLE :: bool
  ASPOSE_AVAILABLE :: bool
  ARABIC_SUPPORT :: bool
  cache_available :: bool
  redis_client :: bool
  app_start_time :: real
  http_text :: "nat \<Rightarrow> string"
  secure_filename :: "string \<Rightarrow> string"
  md5_hexdigest :: "string \<Rightarrow> string"
  utc_offset :: "int \<Rightarrow> int"

text \<open>
  The module-level flags, fixed when the module is imported. \<open>redis_client\<close> is
  \<open>True\<close> when the module holds a client object (the source tests the object's
  truth value). \<open>http_text code\<close> is werkzeug's \<^verbatim>\<open>str()\<close> of an HTTP exception of
  that status; it does not contain the message given to \<^verbatim>\<open>api.abort\<close>.
  \<open>secure_filename\<close> is werkzeug's function of that name and \<open>md5_hexdigest\<close> is
  \<^verbatim>\<open>hashlib.md5(bytes).hexdigest()\<close>; both are pure library functions.
  \<open>utc_offset t\<close> is the offset of the process's time zone from UTC, in seconds, that
  \<^verbatim>\<open>time.localtime\<close> applies at the POSIX second \<open>t\<close>.
\<close>

record conversion_stats =
  total_conversions :: int
  successful_conversions :: int
  failed_conversions :: int
  average_processing_time :: real
  engine_usage :: "string \<rightharpoonup> int"

definition initial_stats :: conversion_stats where
  "initial_stats =
     \<lparr> total_conversions = 0, successful_conversions = 0, failed_conversions = 0,
       average_processing_time = 0,
       engine_usage = [''standard'' \<mapsto> 0, ''high_quality'' \<mapsto> 0, ''pdf_to_image'' \<mapsto> 0,
                       ''image_to_pdf'' \<mapsto> 0, ''merge_pdf'' \<mapsto> 0, ''compress_pdf'' \<mapsto> 0] \<rparr>"

record redis_store =
  kv :: "string \<rightharpoonup> (string \<times> real)"
  total_counter :: "int option"

text \<open>
  The Redis server as the source uses it: \<open>kv\<close> holds the keys written by
  \<^verbatim>\<open>setex\<close>, each with its value and the instant at which it expires;
  \<open>total_counter\<close> is the key \<^verbatim>\<open>pdfaraby:total_conversions\<close>, which only
  \<^verbatim>\<open>incr\<close> writes.
\<close>

definition redis_get :: "real \<Rightarrow> string \<Rightarrow> redis_store \<Rightarrow> string option" where
  "redis_get t k r =
     (case kv r k of
        None \<Rightarrow> None
      | Some (v, expiry) \<Rightarrow> if t < expiry then Some v else None)"

definition redis_setex :: "real \<Rightarrow> string \<Rightarrow> real \<Rightarrow> string \<Rightarrow> redis_store \<Rightarrow> redis_store" where
  "redis_setex t k ttl v r = r\<lparr>kv := (kv r)(k \<mapsto> (v, t + ttl))\<rparr>"

definition redis_incr :: "redis_store \<Rightarrow> redis_store" where
  "redis_incr r =
     r\<lparr>total_counter := Some (case total_counter r of None \<Rightarrow> 1 | Some n \<Rightarrow> n + 1)\<rparr>"

record file_entry =
  fname :: string
  mtime :: real
  is_file :: bool
  remove_raises :: "string option"

text \<open>
  A directory entry: its name, what \<^verbatim>\<open>os.path.getmtime\<close> returns for it, whether
  \<^verbatim>\<open>os.path.isfile\<close> holds of it, and what \<^verbatim>\<open>os.remove\<close> does on it
  (\<open>Some text\<close>: the call raises an \<^verbatim>\<open>OSError\<close> whose \<^verbatim>\<open>str()\<close> is \<open>text\<close>
  and leaves the entry in place). A folder is the list \<^verbatim>\<open>os.listdir\<close> returns, or
  \<open>None\<close> when \<^verbatim>\<open>os.path.exists(folder)\<close> is false.
\<close>

type_synonym folder = "file_entry list option"

datatype which_folder = UPLOAD_FOLDER | CONVERTED_FOLDER

record filesystem =
  upload_folder :: folder
  converted_folder :: folder

record docx_paragraph =
  runs :: "string list"
  alignment :: "string list"

type_synonym document = "docx_paragraph list"

record app_state =
  stats :: conversion_stats
  redis :: redis_store
  fs :: filesystem
  logged :: "log_entry list"
  engine_calls :: "string list"
  docx_saves :: "(string \<times> document) list"

text \<open>
  \<open>logged\<close> collects the calls to \<^verbatim>\<open>logger\<close>, oldest first. \<open>engine_calls\<close> is the
  trace of the calls made to the external conversion engines, oldest first:
  \<open>''standard''\<close> for a run of pdf2docx's \<^verbatim>\<open>Converter\<close>, \<open>''high_quality''\<close> for a run
  of Aspose's \<^verbatim>\<open>Document.save\<close>. \<open>docx_saves\<close> is the trace of python-docx's
  \<^verbatim>\<open>doc.save(path)\<close> calls that returned, each with the document written. A
  document is the list of its paragraphs; a paragraph has the texts of its runs and the
  values of the \<^verbatim>\<open>w:jc\<close> elements appended to its properties.
\<close>

record world =
  now :: real
  elapsed :: real
  unique_id :: string
  save_raises :: "string option"
  hash_raises :: "string option"
  redis_get_raises :: "string option"
  redis_setex_raises :: "string option"
  redis_incr_raises :: "string option"
  mem_before :: "string + string"
  mem_after :: "string + string"
  pdf2docx_raises :: "string option"
  pdf2docx_writes :: bool
  aspose_load_raises :: "string option"
  aspose_raises :: "string option"
  aspose_writes :: bool
  docx_import_raises :: "string option"
  docx_open :: "string + document"
  reshape :: "string \<Rightarrow> string option"
  docx_save_raises :: "string option"
  exists_elsewhere :: "which_folder \<Rightarrow> string \<Rightarrow> bool"

text \<open>
  The outcomes of the external calls of one request. A field \<open>x_raises\<close> is
  \<open>Some text\<close> when the call raises an exception whose \<^verbatim>\<open>str()\<close> is \<open>text\<close>, and
  \<open>None\<close> when it returns. \<open>now\<close> is \<^verbatim>\<open>time.time()\<close>, \<open>elapsed\<close> is
  \<^verbatim>\<open>time.time() - start_time\<close>; \<open>unique_id\<close> is \<^verbatim>\<open>str(uuid.uuid4())[:8]\<close>;
  \<open>hash_raises\<close> is a failure to read the saved upload back in \<^verbatim>\<open>get_file_hash\<close>;
  \<open>mem_before\<close> and \<open>mem_after\<close> are the two psutil readings (\<open>Inl\<close>: the call raises);
  an engine first writes its output file when its \<open>writes\<close> flag holds and then raises
  when its \<open>raises\<close> field says so (\<open>aspose_load_raises\<close>: \<^verbatim>\<open>ap.Document(pdf_path)\<close>
  raises, before anything is written); \<open>docx_open\<close> is python-docx's \<^verbatim>\<open>Document(path)\<close>;
  \<open>reshape\<close> is \<^verbatim>\<open>arabic_reshaper.reshape\<close> (\<open>None\<close>: it raises);
  \<open>exists_elsewhere d p\<close> is \<^verbatim>\<open>os.path.exists(os.path.join(d, p))\<close> for a \<open>p\<close> that
  holds a separator or a NUL, and so is not the name of an entry of the folder \<open>d\<close>.
\<close>

definition info :: "string \<Rightarrow> ('a app_state_scheme, unit) py" where
  "info msg s = (Inr (), s\<lparr>logged := logged s @ [(INFO, msg)]\<rparr>)"

definition warning :: "string \<Rightarrow> ('a app_state_scheme, unit) py" where
  "warning msg s = (Inr (), s\<lparr>logged := logged s @ [(WARNING, msg)]\<rparr>)"

definition error :: "string \<Rightarrow> ('a app_state_scheme, unit) py" where
  "error msg s = (Inr (), s\<lparr>logged := logged s @ [(ERROR, msg)]\<rparr>)"

definition str_exn :: "config \<Rightarrow> exn \<Rightarrow> string" where
  "str_exn cfg e =
     (case e of
        HTTPException code msg \<Rightarrow> http_text cfg code
      | KeyError k \<Rightarrow> [CHR 0x27] @ k @ [CHR 0x27]
      | ZeroDivisionError \<Rightarrow> ''float division by zero''
      | PyException text \<Rightarrow> text)"

section \<open>Statistics: \<^verbatim>\<open>update_stats\<close> and \<^verbatim>\<open>Stats.get\<close>\<close>

text \<open>
  \<^verbatim>\<open>update_stats(success, engine, processing_time)\<close>. The three counters are
  incremented first; \<^verbatim>\<open>conversion_stats['engine_usage'][engine] += 1\<close> raises
  \<^verbatim>\<open>KeyError\<close> for a key the dictionary does not hold; the Redis increment is
  guarded by its own \<^verbatim>\<open>try\<close>; the running mean divides by the new total.
\<close>

definition update_stats ::
  "config \<Rightarrow> world \<Rightarrow> bool \<Rightarrow> string \<Rightarrow> real \<Rightarrow> ('a app_state_scheme, unit) py" where
  "update_stats cfg w success eng processing_time s =
     (let st1 = (stats s)\<lparr>total_conversions := total_conversions (stats s) + 1\<rparr>;
          st2 = (if success
                 then st1\<lparr>successful_conversions := successful_conversions st1 + 1\<rparr>
                 else st1\<lparr>failed_conversions := failed_conversions st1 + 1\<rparr>)
      in case engine_usage st2 eng of
           None \<Rightarrow> (Inl (KeyError eng), s\<lparr>stats := st2\<rparr>)
         | Some n \<Rightarrow>
             (let st3 = st2\<lparr>engine_usage := (engine_usage st2)(eng \<mapsto> n + 1)\<rparr>;
                  s3 = s\<lparr>stats := st3\<rparr>;
                  s4 = (if redis_client cfg
                        then (case redis_incr_raises w of
                                None \<Rightarrow> s3\<lparr>redis := redis_incr (redis s3)\<rparr>
                              | Some text \<Rightarrow>
                                  s3\<lparr>logged := logged s3 @
                                       [(WARNING, ''Failed to update Redis: '' @ text)]\<rparr>)
                        else s3)
              in if total_conversions st3 = 1
                 then (Inr (), s4\<lparr>stats := st3\<lparr>average_processing_time := processing_time\<rparr>\<rparr>)
                 else if total_conversions st3 = 0
                 then (Inl ZeroDivisionError, s4)
                 else (Inr (),
                       s4\<lparr>stats := st3\<lparr>average_processing_time :=
                              (average_processing_time st3 * real_of_int (total_conversions st3 - 1)
                                 + processing_time) / real_of_int (total_conversions st3)\<rparr>\<rparr>)))"

text \<open>Python's \<^verbatim>\<open>int(x)\<close> on a float: truncation toward zero.\<close>

definition int_trunc :: "real \<Rightarrow> int" where
  "int_trunc x = (if 0 \<le> x then \<lfloor>x\<rfloor> else - \<lfloor>- x\<rfloor>)"

record stats_response =
  sr_conversion_stats :: conversion_stats
  user_count :: int
  sr_cache_available :: bool
  uptime :: real
  memory_usage :: string

text \<open>
  \<^verbatim>\<open>Stats.get\<close>. The psutil reading is \<open>mem_before\<close>. When a client exists, the
  counter is read from Redis inside a \<^verbatim>\<open>try\<close> whose handler is \<^verbatim>\<open>pass\<close>; a value
  that is present overwrites the in-memory \<^verbatim>\<open>total_conversions\<close>.
\<close>

definition stats_get :: "config \<Rightarrow> world \<Rightarrow> app_state \<Rightarrow> stats_response \<times> app_state" where
  "stats_get cfg w s =
     (let memory = (case mem_before w of Inl _ \<Rightarrow> ''unavailable'' | Inr m \<Rightarrow> m @ '' MB'');
          base_count = 1250;
          time_growth = int_trunc ((now w - 1703700000) / 600);
          s' = (if redis_client cfg
                then (case redis_get_raises w of
                        Some _ \<Rightarrow> s
                      | None \<Rightarrow>
                          (case total_counter (redis s) of
                             None \<Rightarrow> s
                           | Some real_total \<Rightarrow>
                               s\<lparr>stats := (stats s)\<lparr>total_conversions := real_total\<rparr>\<rparr>))
                else s);
          display_count = base_count + time_growth + total_conversions (stats s')
      in (\<lparr> sr_conversion_stats = stats s',
            user_count = display_count,
            sr_cache_available = cache_available cfg,
            uptime = now w - app_start_time cfg,
            memory_usage = memory \<rparr>, s'))"

section \<open>File names\<close>

definition ALLOWED_EXTENSIONS :: "string set" where
  "ALLOWED_EXTENSIONS = {''pdf'', ''png'', ''jpg'', ''jpeg''}"

definition FILE_RETENTION_HOURS :: int where
  "FILE_RETENTION_HOURS = 1"

text \<open>
  \<^verbatim>\<open>str.lower()\<close> on the bytes of a name: only the ASCII capitals change. No
  character outside ASCII lowers to a letter of the accepted extensions, so membership
  in \<open>ALLOWED_EXTENSIONS\<close> is decided as Python decides it.
\<close>

definition lower_char :: "char \<Rightarrow> char" where
  "lower_char c =
     (case map_of (zip ''ABCDEFGHIJKLMNOPQRSTUVWXYZ'' ''abcdefghijklmnopqrstuvwxyz'') c of
        Some d \<Rightarrow> d
      | None \<Rightarrow> c)"

definition lower :: "string \<Rightarrow> string" where
  "lower s = map lower_char s"

text \<open>\<^verbatim>\<open>s.rsplit('.', 1)\<close>: the part after the last dot, and the part before it
  (the whole string when there is no dot).\<close>

definition rsplit_last :: "string \<Rightarrow> string" where
  "rsplit_last s = rev (takeWhile (\<lambda>c. c \<noteq> CHR ''.'') (rev s))"

definition rsplit_head :: "string \<Rightarrow> string" where
  "rsplit_head s =
     (if CHR ''.'' \<in> set s then rev (tl (dropWhile (\<lambda>c. c \<noteq> CHR ''.'') (rev s))) else s)"

definition allowed_file :: "string \<Rightarrow> bool" where
  "allowed_file filename =
     (CHR ''.'' \<in> set filename \<and> lower (rsplit_last filename) \<in> ALLOWED_EXTENSIONS)"

text \<open>
  \<^verbatim>\<open>os.path.splitext\<close> on a name without directory separators (werkzeug's
  \<^verbatim>\<open>secure_filename\<close> leaves none): the split is at the last dot, unless only dots
  stand before it.
\<close>

definition splitext :: "string \<Rightarrow> string \<times> string" where
  "splitext p =
     (if CHR ''.'' \<in> set (dropWhile (\<lambda>c. c = CHR ''.'') p)
      then (rsplit_head p, CHR ''.'' # rsplit_last p)
      else (p, []))"

definition clean_filename :: "config \<Rightarrow> world \<Rightarrow> string \<Rightarrow> string" where
  "clean_filename cfg w filename =
     (let secure_name = secure_filename cfg filename;
          secure_name = (if secure_name = [] then ''document.pdf'' else secure_name);
          unique = unique_id w;
          (name, ext) = splitext secure_name;
          name = (if name = [] then ''document'' else name);
          ext = (if ext = [] then ''.pdf'' else ext)
      in name @ ''_'' @ unique @ ext)"

section \<open>The two folders\<close>

text \<open>
  The names a directory entry can have: not empty, not \<^verbatim>\<open>.\<close> or \<^verbatim>\<open>..\<close>, without
  separator and without NUL. The names \<^verbatim>\<open>os.listdir\<close> returns are of this kind, and so
  are the names \<open>clean_filename\<close> builds, since werkzeug's \<^verbatim>\<open>secure_filename\<close> keeps
  only letters, digits, \<^verbatim>\<open>_\<close>, \<^verbatim>\<open>.\<close> and \<^verbatim>\<open>-\<close> and \<^verbatim>\<open>uuid4\<close> prints
  hexadecimal digits. A value read from Redis can be any string.
\<close>

definition plain_name :: "string \<Rightarrow> bool" where
  "plain_name name =
     (name \<noteq> [] \<and> name \<noteq> ''.'' \<and> name \<noteq> ''..''
      \<and> CHR ''/'' \<notin> set name \<and> CHR 0x00 \<notin> set name)"

text \<open>
  \<^verbatim>\<open>os.path.exists(os.path.join(d, name))\<close>, where \<open>listing\<close> is the folder \<open>d\<close>.
  For the name of a directory entry the answer is read off the listing. A name with a
  separator or a NUL leads elsewhere, and the answer is the world's. What remains is
  the empty name, \<^verbatim>\<open>.\<close> and \<^verbatim>\<open>..\<close>: the path is the folder itself or its parent,
  which exist when the folder does.
\<close>

definition path_exists :: "world \<Rightarrow> which_folder \<Rightarrow> string \<Rightarrow> folder \<Rightarrow> bool" where
  "path_exists w d name listing =
     (if plain_name name
      then (case listing of None \<Rightarrow> False | Some es \<Rightarrow> name \<in> set (map fname es))
      else if CHR ''/'' \<in> set name \<or> CHR 0x00 \<in> set name then exists_elsewhere w d name
      else listing \<noteq> None)"

text \<open>
  \<^verbatim>\<open>os.remove\<close> of a name in a folder: it raises when there is no such entry or the
  entry cannot be removed, and otherwise returns the folder without the entry.
\<close>

definition os_remove :: "string \<Rightarrow> folder \<Rightarrow> string + folder" where
  "os_remove name d =
     (case d of
        None \<Rightarrow> Inl ''No such file or directory''
      | Some es \<Rightarrow>
          (case find (\<lambda>e. fname e = name) es of
             None \<Rightarrow> Inl ''No such file or directory''
           | Some e \<Rightarrow>
               (case remove_raises e of
                  None \<Rightarrow> Inr (Some (filter (\<lambda>x. fname x \<noteq> name) es))
                | Some text \<Rightarrow> Inl text)))"

text \<open>
  Writing a file of a given name at a given instant: a fresh regular file replaces any
  entry of that name. Nothing is written into a folder that does not exist.
\<close>

definition write_file :: "string \<Rightarrow> real \<Rightarrow> folder \<Rightarrow> folder" where
  "write_file name t d =
     map_option
       (\<lambda>es. filter (\<lambda>x. fname x \<noteq> name) es
              @ [\<lparr> fname = name, mtime = t, is_file = True, remove_raises = None \<rparr>]) d"

section \<open>The result cache: \<^verbatim>\<open>get_cached_result\<close>, \<^verbatim>\<open>set_cached_result\<close>\<close>

definition cache_key :: "string \<Rightarrow> string \<Rightarrow> string" where
  "cache_key file_hash eng = ''pdf_convert:'' @ file_hash @ '':'' @ eng"

text \<open>
  Neither function has a \<^verbatim>\<open>try\<close>: an exception of the Redis client leaves the
  function. \<^verbatim>\<open>if cached_data:\<close> is false for a missing key and for an empty value.
\<close>

definition get_cached_result ::
  "config \<Rightarrow> world \<Rightarrow> string \<Rightarrow> string \<Rightarrow> ('a app_state_scheme, string option) py" where
  "get_cached_result cfg w file_hash eng s =
     (if \<not> cache_available cfg \<or> \<not> redis_client cfg then (Inr None, s)
      else (case redis_get_raises w of
              Some text \<Rightarrow> (Inl (PyException text), s)
            | None \<Rightarrow>
                (case redis_get (now w) (cache_key file_hash eng) (redis s) of
                   None \<Rightarrow> (Inr None, s)
                 | Some cached_data \<Rightarrow>
                     if cached_data \<noteq> []
                     then (Inr (Some cached_data),
                           s\<lparr>logged := logged s @
                                [(INFO, ''Found a cached result for file: '' @ file_hash)]\<rparr>)
                     else (Inr None, s))))"

definition set_cached_result ::
  "config \<Rightarrow> world \<Rightarrow> string \<Rightarrow> string \<Rightarrow> string \<Rightarrow> ('a app_state_scheme, unit) py" where
  "set_cached_result cfg w file_hash eng result_filename s =
     (if \<not> cache_available cfg \<or> \<not> redis_client cfg then (Inr (), s)
      else (case redis_setex_raises w of
              Some text \<Rightarrow> (Inl (PyException text), s)
            | None \<Rightarrow>
                (Inr (),
                 s\<lparr>redis := redis_setex (now w) (cache_key file_hash eng) 3600
                                result_filename (redis s)\<rparr>)))"

section \<open>Post-processing: \<^verbatim>\<open>apply_rtl_to_docx\<close>\<close>

text \<open>
  \<^verbatim>\<open>run.text.strip()\<close> is true when the text has a character that is not white
  space; the ASCII white space of Python is modelled.
\<close>

definition is_space :: "char \<Rightarrow> bool" where
  "is_space c =
     (c \<in> set [CHR '' '', CHR 0x09, CHR 0x0A, CHR 0x0B, CHR 0x0C, CHR 0x0D,
               CHR 0x1C, CHR 0x1D, CHR 0x1E, CHR 0x1F])"

definition reshape_run :: "world \<Rightarrow> string \<Rightarrow> string" where
  "reshape_run w run_text =
     (if list_ex (\<lambda>c. \<not> is_space c) run_text
      then (case reshape w run_text of Some reshaped_text \<Rightarrow> reshaped_text | None \<Rightarrow> run_text)
      else run_text)"

definition rtl_paragraph :: "config \<Rightarrow> world \<Rightarrow> docx_paragraph \<Rightarrow> docx_paragraph" where
  "rtl_paragraph cfg w p =
     \<lparr> runs = (if ARABIC_SUPPORT cfg then map (reshape_run w) (runs p) else runs p),
       alignment = alignment p @ [''right''] \<rparr>"

text \<open>
  The whole body stands in one \<^verbatim>\<open>try\<close> whose handler logs and returns \<^verbatim>\<open>False\<close>,
  so the function returns a Boolean on every path: the import of python-docx, opening
  the document and saving it may each raise.
\<close>

definition apply_rtl_to_docx ::
  "config \<Rightarrow> world \<Rightarrow> string \<Rightarrow> 'a app_state_scheme \<Rightarrow> bool \<times> 'a app_state_scheme" where
  "apply_rtl_to_docx cfg w docx_path s =
     (case (case docx_import_raises w of
              Some text \<Rightarrow> Inl text
            | None \<Rightarrow>
                (case docx_open w of
                   Inl text \<Rightarrow> Inl text
                 | Inr doc \<Rightarrow>
                     (case docx_save_raises w of
                        Some text \<Rightarrow> Inl text
                      | None \<Rightarrow> Inr (map (rtl_paragraph cfg w) doc)))) of
        Inr doc' \<Rightarrow>
          (True, s\<lparr>docx_saves := docx_saves s @ [(docx_path, doc')],
                   logged := logged s @
                     [(INFO, ''Arabic fixes (Reshape + Bidi) applied successfully'')]\<rparr>)
      | Inl text \<Rightarrow>
          (False, s\<lparr>logged := logged s @
                     [(ERROR, ''Error while processing Arabic text: '' @ text)]\<rparr>))"

section \<open>The conversion request: \<^verbatim>\<open>Convert.post\<close>\<close>

record upload =
  up_filename :: string
  up_content :: string

record request =
  req_file :: "upload option"
  req_engine :: "string option"

text \<open>
  \<open>req_file\<close> is \<^verbatim>\<open>request.files['file']\<close> (\<open>None\<close>: the key is absent);
  \<open>req_engine\<close> is the form field \<^verbatim>\<open>engine\<close> (\<open>None\<close>: absent).
\<close>

record response =
  success :: bool
  message :: string
  filename :: string
  engine_used :: string
  download_url :: string
  processing_time :: "real option"
  cached :: bool

text \<open>
  The dictionary the body of \<^verbatim>\<open>Convert.post\<close> returns, before flask-restx marshals
  it; \<open>processing_time\<close> is the number the source formats with two decimals, and is
  absent from the cached answer.
\<close>

text \<open>
  The handler's frame: the state of the application and the two local variables that
  the \<^verbatim>\<open>except\<close> clause reads. \<open>engine = None\<close> is \<^verbatim>\<open>'engine' not in locals()\<close>.
\<close>

record frame = app_state +
  pdf_path :: "string option"
  engine :: "string option"

definition enter :: "app_state \<Rightarrow> frame" where
  "enter s =
     \<lparr> stats = stats s, redis = redis s, fs = fs s, logged = logged s,
       engine_calls = engine_calls s, docx_saves = docx_saves s,
       pdf_path = None, engine = None \<rparr>"

definition leave :: "frame \<Rightarrow> app_state" where
  "leave f =
     \<lparr> stats = stats f, redis = redis f, fs = fs f, logged = logged f,
       engine_calls = engine_calls f, docx_saves = docx_saves f \<rparr>"

definition set_engine :: "string \<Rightarrow> (frame, unit) py" where
  "set_engine eng s = (Inr (), s\<lparr>engine := Some eng\<rparr>)"

definition get_engine :: "(frame, string) py" where
  "get_engine s =
     (case engine s of
        None \<Rightarrow> (Inl (PyException ''UnboundLocalError''), s)
      | Some eng \<Rightarrow> (Inr eng, s))"

definition set_pdf_path :: "string \<Rightarrow> (frame, unit) py" where
  "set_pdf_path path s = (Inr (), s\<lparr>pdf_path := Some path\<rparr>)"

definition file_save :: "world \<Rightarrow> string \<Rightarrow> ('a app_state_scheme, unit) py" where
  "file_save w name s =
     (case save_raises w of
        Some text \<Rightarrow> (Inl (PyException text), s)
      | None \<Rightarrow>
          (case upload_folder (fs s) of
             None \<Rightarrow> (Inl (PyException ''No such file or directory''), s)
           | Some _ \<Rightarrow>
               (Inr (), s\<lparr>fs := (fs s)\<lparr>upload_folder :=
                               write_file name (now w) (upload_folder (fs s))\<rparr>\<rparr>)))"

definition get_file_hash :: "config \<Rightarrow> world \<Rightarrow> upload \<Rightarrow> ('a app_state_scheme, string) py" where
  "get_file_hash cfg w f s =
     (case hash_raises w of
        Some text \<Rightarrow> (Inl (PyException text), s)
      | None \<Rightarrow> (Inr (md5_hexdigest cfg (up_content f)), s))"

text \<open>\<^verbatim>\<open>if os.path.exists(pdf_path): os.remove(pdf_path)\<close>\<close>

definition remove_upload :: "world \<Rightarrow> string \<Rightarrow> ('a app_state_scheme, unit) py" where
  "remove_upload w name s =
     (if path_exists w UPLOAD_FOLDER name (upload_folder (fs s))
      then (case os_remove name (upload_folder (fs s)) of
              Inl text \<Rightarrow> (Inl (PyException text), s)
            | Inr d \<Rightarrow> (Inr (), s\<lparr>fs := (fs s)\<lparr>upload_folder := d\<rparr>\<rparr>))
      else (Inr (), s))"

text \<open>\<^verbatim>\<open>if pdf_path and os.path.exists(pdf_path): os.remove(pdf_path)\<close>\<close>

definition remove_pdf_path :: "world \<Rightarrow> (frame, unit) py" where
  "remove_pdf_path w s =
     (case pdf_path s of
        None \<Rightarrow> (Inr (), s)
      | Some path \<Rightarrow> remove_upload w path s)"

definition log_memory :: "string \<Rightarrow> string + string \<Rightarrow> ('a app_state_scheme, unit) py" where
  "log_memory label reading s =
     (case reading of
        Inl text \<Rightarrow> (Inl (PyException text), s)
      | Inr mb \<Rightarrow> info (label @ mb @ '' MB'') s)"

text \<open>
  The engines. pdf2docx: \<^verbatim>\<open>Converter(pdf_path)\<close>, \<^verbatim>\<open>convert\<close>, \<^verbatim>\<open>close\<close>. Aspose:
  \<^verbatim>\<open>ap.Document(pdf_path)\<close>, then \<^verbatim>\<open>save\<close> and \<^verbatim>\<open>close\<close>; the requested-engine
  branch logs between loading and saving (\<open>verbose\<close>), the fallback branch does not.
\<close>

definition run_pdf2docx :: "world \<Rightarrow> string \<Rightarrow> ('a app_state_scheme, unit) py" where
  "run_pdf2docx w docx_filename s =
     (let s1 = s\<lparr>engine_calls := engine_calls s @ [''standard'']\<rparr>;
          s2 = (if pdf2docx_writes w
                then s1\<lparr>fs := (fs s1)\<lparr>converted_folder :=
                              write_file docx_filename (now w) (converted_folder (fs s1))\<rparr>\<rparr>
                else s1)
      in case pdf2docx_raises w of
           Some text \<Rightarrow> (Inl (PyException text), s2)
         | None \<Rightarrow> (Inr (), s2))"

definition run_aspose :: "world \<Rightarrow> bool \<Rightarrow> string \<Rightarrow> ('a app_state_scheme, unit) py" where
  "run_aspose w verbose docx_filename s =
     (let s1 = s\<lparr>engine_calls := engine_calls s @ [''high_quality'']\<rparr>
      in case aspose_load_raises w of
           Some text \<Rightarrow> (Inl (PyException text), s1)
         | None \<Rightarrow>
             (let s2 = (if verbose
                        then s1\<lparr>logged := logged s1 @
                               [(INFO, ''Aspose engine: file loaded, saving as DOCX...'')]\<rparr>
                        else s1);
                  s3 = (if aspose_writes w
                        then s2\<lparr>fs := (fs s2)\<lparr>converted_folder :=
                               write_file docx_filename (now w) (converted_folder (fs s2))\<rparr>\<rparr>
                        else s2)
              in case aspose_raises w of
                   Some text \<Rightarrow> (Inl (PyException text), s3)
                 | None \<Rightarrow> (Inr (), s3)))"

text \<open>
  \<^verbatim>\<open>if apply_rtl_to_docx(docx_path): logger.info(...) else: logger.warning(...)\<close>
\<close>

definition rtl_step ::
  "config \<Rightarrow> world \<Rightarrow> string \<Rightarrow> string \<Rightarrow> string \<Rightarrow> ('a app_state_scheme, unit) py" where
  "rtl_step cfg w docx_filename ok_msg fail_msg s =
     (case apply_rtl_to_docx cfg w docx_filename s of
        (True, s') \<Rightarrow> info ok_msg s'
      | (False, s') \<Rightarrow> warning fail_msg s')"

text \<open>
  The branch \<^verbatim>\<open>if engine == 'high_quality' and ASPOSE_AVAILABLE\<close>, with its inner
  \<^verbatim>\<open>try\<close>: an exception of the inner block is logged and raised again as a new
  exception whose text holds the text of the first. The result is \<^verbatim>\<open>success\<close>.
\<close>

definition aspose_branch :: "config \<Rightarrow> world \<Rightarrow> string \<Rightarrow> (frame, bool) py" where
  "aspose_branch cfg w docx_filename =
     py_then (log_memory ''Memory before conversion (Aspose): '' (mem_before w))
     (py_then (info ''Aspose engine: loading the file...'')
     (py_try
        (py_then (run_aspose w True docx_filename)
        (py_then (rtl_step cfg w docx_filename
                    ''RTL settings applied successfully (Aspose)''
                    ''Failed to apply RTL settings (Aspose)'')
        (py_then (info ''Aspose engine: saving finished.'')
        (py_then (log_memory ''Memory after conversion (Aspose): '' (mem_after w))
        (py_return True)))))
        (\<lambda>asp_e.
           py_then (error (''Aspose engine error: '' @ str_exn cfg asp_e))
             (py_raise (PyException (''High-quality engine error: '' @ str_exn cfg asp_e))))))"

definition standard_branch :: "config \<Rightarrow> world \<Rightarrow> string \<Rightarrow> (frame, bool) py" where
  "standard_branch cfg w docx_filename =
     py_then (info ''Using the standard pdf2docx engine'')
     (py_then (run_pdf2docx w docx_filename)
     (py_then (rtl_step cfg w docx_filename
                 ''RTL settings applied successfully''
                 ''Failed to apply RTL settings'')
     (py_return True)))"

definition fallback_branch :: "config \<Rightarrow> world \<Rightarrow> string \<Rightarrow> (frame, bool) py" where
  "fallback_branch cfg w docx_filename =
     (if PDF2DOCX_AVAILABLE cfg
      then py_then (warning ''Requested engine not available, using pdf2docx instead'')
           (py_then (run_pdf2docx w docx_filename)
           (py_then (rtl_step cfg w docx_filename
                       ''RTL settings applied successfully (fallback)''
                       ''Failed to apply RTL settings (fallback)'')
           (py_then (set_engine ''standard'')
           (py_return True))))
      else if ASPOSE_AVAILABLE cfg
      then py_then (warning ''Requested engine not available, using Aspose instead'')
           (py_then (run_aspose w False docx_filename)
           (py_then (rtl_step cfg w docx_filename
                       ''RTL settings applied successfully (Aspose fallback)''
                       ''Failed to apply RTL settings (Aspose fallback)'')
           (py_then (set_engine ''high_quality'')
           (py_return True))))
      else py_bind get_engine (\<lambda>eng.
           py_then (update_stats cfg w False eng (elapsed w))
           (py_raise (HTTPException 503 ''No conversion engine is available at the moment.''))))"

definition select_engine :: "config \<Rightarrow> world \<Rightarrow> string \<Rightarrow> (frame, bool) py" where
  "select_engine cfg w docx_filename =
     py_bind get_engine (\<lambda>eng.
       if eng = ''high_quality'' \<and> ASPOSE_AVAILABLE cfg then aspose_branch cfg w docx_filename
       else if eng = ''standard'' \<and> PDF2DOCX_AVAILABLE cfg then standard_branch cfg w docx_filename
       else fallback_branch cfg w docx_filename)"

text \<open>
  The engine that the branches of \<open>select_engine\<close> call, as a function of the flags and
  of the value of \<^verbatim>\<open>engine\<close> at the branch: the conditions of the four branches in
  the order of the source, and \<open>None\<close> for the last \<^verbatim>\<open>else\<close>.
\<close>

definition chosen_engine :: "config \<Rightarrow> string \<Rightarrow> string option" where
  "chosen_engine cfg eng =
     (if eng = ''high_quality'' \<and> ASPOSE_AVAILABLE cfg then Some ''high_quality''
      else if eng = ''standard'' \<and> PDF2DOCX_AVAILABLE cfg then Some ''standard''
      else if PDF2DOCX_AVAILABLE cfg then Some ''standard''
      else if ASPOSE_AVAILABLE cfg then Some ''high_quality''
      else None)"

text \<open>From \<^verbatim>\<open>if not os.path.exists(docx_path) or not success\<close> to the final \<^verbatim>\<open>return\<close>.\<close>

definition finish :: "config \<Rightarrow> world \<Rightarrow> string \<Rightarrow> string \<Rightarrow> string \<Rightarrow> bool \<Rightarrow> (frame, response) py" where
  "finish cfg w safe_filename docx_filename file_hash ok =
     py_then
       (\<lambda>s. if \<not> path_exists w CONVERTED_FOLDER docx_filename (converted_folder (fs s)) \<or> \<not> ok
            then py_bind get_engine (\<lambda>eng.
                   py_then (update_stats cfg w False eng (elapsed w))
                   (py_then (remove_pdf_path w)
                   (py_raise (HTTPException 500 ''Failed to create the Word file'')))) s
            else (Inr (), s))
     (py_bind get_engine (\<lambda>eng.
      py_then (set_cached_result cfg w file_hash eng docx_filename)
     (py_then (remove_upload w safe_filename)
     (py_bind get_engine (\<lambda>eng.
      py_then (update_stats cfg w True eng (elapsed w))
     (py_then (info ''Conversion finished successfully'')
     (py_bind get_engine (\<lambda>eng.
      py_return
        \<lparr> success = True,
          message = ''Converted successfully!'',
          filename = docx_filename,
          engine_used = eng,
          download_url = ''/download/'' @ docx_filename,
          processing_time = Some (elapsed w),
          cached = False \<rparr>))))))))"

definition cache_hit :: "config \<Rightarrow> world \<Rightarrow> string \<Rightarrow> (frame, response) py" where
  "cache_hit cfg w cached_result =
     py_then (info ''Used the cached result'')
     (py_bind get_engine (\<lambda>eng.
      py_then (update_stats cfg w True eng (elapsed w))
     (py_bind get_engine (\<lambda>eng.
      py_return
        \<lparr> success = True,
          message = ''Converted successfully! (from the cache)'',
          filename = cached_result,
          engine_used = eng,
          download_url = ''/download/'' @ cached_result,
          processing_time = None,
          cached = True \<rparr>))))"

definition requested_engine :: "request \<Rightarrow> string" where
  "requested_engine req =
     (let eng = (case req_engine req of None \<Rightarrow> ''standard'' | Some e \<Rightarrow> e)
      in if eng \<notin> set [''standard'', ''high_quality''] then ''standard'' else eng)"

text \<open>The path taken when the cache gives no usable artifact: engine, then \<open>finish\<close>.\<close>

definition recompute :: "config \<Rightarrow> world \<Rightarrow> string \<Rightarrow> string \<Rightarrow> (frame, response) py" where
  "recompute cfg w safe_filename file_hash =
     (let docx_filename = rsplit_head safe_filename @ ''.docx''
      in py_bind (select_engine cfg w docx_filename)
           (finish cfg w safe_filename docx_filename file_hash))"

text \<open>
  The test
  \<^verbatim>\<open>if cached_result and os.path.exists(os.path.join(CONVERTED_FOLDER, cached_result))\<close>
  on the result of the lookup: the cached answer, or the conversion.
\<close>

definition after_lookup ::
  "config \<Rightarrow> world \<Rightarrow> string \<Rightarrow> string \<Rightarrow> string option \<Rightarrow> (frame, response) py" where
  "after_lookup cfg w safe_filename file_hash cached_result s =
     (case cached_result of
        None \<Rightarrow> recompute cfg w safe_filename file_hash s
      | Some c \<Rightarrow>
          if c \<noteq> [] \<and> path_exists w CONVERTED_FOLDER c (converted_folder (fs s))
          then cache_hit cfg w c s
          else recompute cfg w safe_filename file_hash s)"

text \<open>The \<^verbatim>\<open>try\<close> block from the assignment of \<^verbatim>\<open>engine\<close> on.\<close>

definition convert :: "config \<Rightarrow> world \<Rightarrow> request \<Rightarrow> upload \<Rightarrow> (frame, response) py" where
  "convert cfg w req f =
     py_then (set_engine (requested_engine req))
     (py_bind get_engine (\<lambda>eng.
      py_then (info (''Starting the conversion with engine: '' @ eng))
     (let safe_filename = clean_filename cfg w (up_filename f)
      in py_then (set_pdf_path safe_filename)
        (py_then (file_save w safe_filename)
        (py_bind (get_file_hash cfg w f) (\<lambda>file_hash.
         py_bind get_engine (\<lambda>eng.
         py_bind (get_cached_result cfg w file_hash eng)
           (after_lookup cfg w safe_filename file_hash))))))))"

text \<open>The \<^verbatim>\<open>try\<close> block: the three checks of the request, then the conversion.\<close>

definition post_try :: "config \<Rightarrow> world \<Rightarrow> request \<Rightarrow> (frame, response) py" where
  "post_try cfg w req =
     (case req_file req of
        None \<Rightarrow>
          py_then (update_stats cfg w False ''unknown'' (elapsed w))
            (py_raise (HTTPException 400 ''No file was sent!''))
      | Some f \<Rightarrow>
          if up_filename f = []
          then py_then (update_stats cfg w False ''unknown'' (elapsed w))
                 (py_raise (HTTPException 400 ''No file was selected!''))
          else if \<not> allowed_file (up_filename f)
          then py_then (update_stats cfg w False ''unknown'' (elapsed w))
                 (py_raise (HTTPException 400
                    ''File type not allowed. Please upload PDF files only.''))
          else convert cfg w req f)"

text \<open>
  The clause \<^verbatim>\<open>except Exception as e\<close>: it logs, removes the upload, records a
  failure under the engine the frame holds (\<^verbatim>\<open>'unknown'\<close> when there is none), and
  aborts with status 500 and \<^verbatim>\<open>str(e)\<close> as the message.
\<close>

definition post_except :: "config \<Rightarrow> world \<Rightarrow> exn \<Rightarrow> (frame, response) py" where
  "post_except cfg w e =
     py_then (error (''Conversion error: '' @ str_exn cfg e))
     (py_then (remove_pdf_path w)
     (py_then (\<lambda>s. update_stats cfg w False
                      (case engine s of Some eng \<Rightarrow> eng | None \<Rightarrow> ''unknown'') (elapsed w) s)
     (py_raise (HTTPException 500 (str_exn cfg e)))))"

text \<open>
  \<^verbatim>\<open>Convert.post\<close>: what the method returns or raises, and the state it leaves.
\<close>

definition post :: "config \<Rightarrow> world \<Rightarrow> request \<Rightarrow> app_state \<Rightarrow> (exn + response) \<times> app_state" where
  "post cfg w req s =
     (case py_try (post_try cfg w req) (post_except cfg w) (enter s) of
        (res, s') \<Rightarrow> (res, leave s'))"

text \<open>
  What flask-restx makes of the result at the boundary: a returned dictionary is sent
  with status 200; an HTTP exception is sent with its own status and with the message
  given to \<^verbatim>\<open>api.abort\<close> in the field \<^verbatim>\<open>message\<close> of the body; any other exception
  is answered with status 500 and the status phrase.
\<close>

definition status_code :: "exn + response \<Rightarrow> nat" where
  "status_code res =
     (case res of
        Inr _ \<Rightarrow> 200
      | Inl (HTTPException code _) \<Rightarrow> code
      | Inl _ \<Rightarrow> 500)"

definition body_message :: "exn + response \<Rightarrow> string" where
  "body_message res =
     (case res of
        Inr r \<Rightarrow> message r
      | Inl (HTTPException _ msg) \<Rightarrow> msg
      | Inl _ \<Rightarrow> ''Internal Server Error'')"

section \<open>The application's error handlers and the index\<close>

text \<open>
  The field \<^verbatim>\<open>engines\<close> of the answer of \<^verbatim>\<open>ApiIndex.get\<close>: which engine stands
  behind each engine name, and whether it is available.
\<close>

definition engines :: "config \<Rightarrow> string \<rightharpoonup> bool" where
  "engines cfg = [''standard'' \<mapsto> PDF2DOCX_AVAILABLE cfg, ''high_quality'' \<mapsto> ASPOSE_AVAILABLE cfg]"


record error_body =
  eb_success :: bool
  eb_error :: string
  eb_code :: nat

definition internal_server_error :: "config \<Rightarrow> exn \<Rightarrow> error_body \<times> nat" where
  "internal_server_error cfg e =
     (\<lparr> eb_success = False, eb_error = ''Internal error: '' @ str_exn cfg e, eb_code = 500 \<rparr>, 500)"

definition handle_unexpected_error :: "config \<Rightarrow> exn \<Rightarrow> exn + error_body \<times> nat" where
  "handle_unexpected_error cfg e =
     (case e of
        HTTPException code msg \<Rightarrow> Inl e
      | _ \<Rightarrow>
          Inr (\<lparr> eb_success = False,
                 eb_error = ''An unexpected error occurred. Please try again later.'',
                 eb_code = 500 \<rparr>, 500))"

section \<open>The retention sweeper: \<^verbatim>\<open>delete_old_files\<close>\<close>

definition get_folder :: "which_folder \<Rightarrow> filesystem \<Rightarrow> folder" where
  "get_folder d f = (case d of UPLOAD_FOLDER \<Rightarrow> upload_folder f | CONVERTED_FOLDER \<Rightarrow> converted_folder f)"

definition set_folder :: "which_folder \<Rightarrow> folder \<Rightarrow> filesystem \<Rightarrow> filesystem" where
  "set_folder d x f =
     (case d of UPLOAD_FOLDER \<Rightarrow> f\<lparr>upload_folder := x\<rparr> | CONVERTED_FOLDER \<Rightarrow> f\<lparr>converted_folder := x\<rparr>)"

text \<open>
  \<^verbatim>\<open>datetime.fromtimestamp(t)\<close> rounds the float to whole microseconds, to the
  nearest and a half to the even neighbour, and adds the offset of the local time zone
  at that second: the result is a naive wall-clock time.
\<close>

definition round_half_even :: "real \<Rightarrow> int" where
  "round_half_even x =
     (let n = \<lfloor>x\<rfloor>; r = x - of_int n
      in if r < 1 / 2 then n else if 1 / 2 < r then n + 1 else if even n then n else n + 1)"

definition fromtimestamp :: "config \<Rightarrow> real \<Rightarrow> int" where
  "fromtimestamp cfg t =
     (let us = round_half_even (t * 1000000)
      in us + 1000000 * utc_offset cfg (us div 1000000))"

text \<open>\<^verbatim>\<open>timedelta(hours=h)\<close>\<close>

definition timedelta_hours :: "int \<Rightarrow> int" where
  "timedelta_hours h = h * 3600000000"

text \<open>
  \<^verbatim>\<open>current_time - file_time > timedelta(hours=FILE_RETENTION_HOURS)\<close>, where
  \<^verbatim>\<open>current_time\<close> is \<^verbatim>\<open>datetime.now()\<close> and \<^verbatim>\<open>file_time\<close> is
  \<^verbatim>\<open>datetime.fromtimestamp(os.path.getmtime(filepath))\<close>: a difference of two naive
  wall-clock times.
\<close>

definition expired :: "config \<Rightarrow> int \<Rightarrow> file_entry \<Rightarrow> bool" where
  "expired cfg current_time e =
     (current_time - fromtimestamp cfg (mtime e) > timedelta_hours FILE_RETENTION_HOURS)"

text \<open>
  The inner loop over the names \<^verbatim>\<open>os.listdir(folder)\<close> returned. The entry of the
  listing gives \<^verbatim>\<open>isfile\<close> and \<^verbatim>\<open>getmtime\<close>; \<^verbatim>\<open>os.remove\<close> acts on the folder as
  it is by then. An exception ends the loop.
\<close>

fun sweep_files :: "config \<Rightarrow> int \<Rightarrow> which_folder \<Rightarrow> file_entry list \<Rightarrow> (app_state, unit) py" where
  "sweep_files cfg current_time d [] s = (Inr (), s)"
| "sweep_files cfg current_time d (e # es) s =
     (if is_file e
      then (if expired cfg current_time e
            then (case os_remove (fname e) (get_folder d (fs s)) of
                    Inl text \<Rightarrow> (Inl (PyException text), s)
                  | Inr x \<Rightarrow>
                      sweep_files cfg current_time d es
                        (s\<lparr>fs := set_folder d x (fs s),
                           logged := logged s @ [(INFO, ''Deleted: '' @ fname e)]\<rparr>))
            else sweep_files cfg current_time d es s)
      else sweep_files cfg current_time d es s)"

definition sweep_folder :: "config \<Rightarrow> int \<Rightarrow> which_folder \<Rightarrow> (app_state, unit) py" where
  "sweep_folder cfg current_time d s =
     (case get_folder d (fs s) of
        None \<Rightarrow> (Inr (), s)
      | Some es \<Rightarrow> sweep_files cfg current_time d es s)"

text \<open>
  One turn of the \<^verbatim>\<open>while True\<close> loop, up to the \<^verbatim>\<open>time.sleep(600)\<close>: the
  \<^verbatim>\<open>try\<close> encloses the loop over both folders, and its handler logs the exception.
\<close>

definition sweep_cycle :: "config \<Rightarrow> int \<Rightarrow> (app_state, unit) py" where
  "sweep_cycle cfg current_time =
     py_try
       (py_then (sweep_folder cfg current_time UPLOAD_FOLDER)
                (sweep_folder cfg current_time CONVERTED_FOLDER))
       (\<lambda>e. error (''Deletion error: '' @ str_exn cfg e))"

text \<open>
  The loop never returns; \<open>delete_old_files cfg n clock\<close> is its first \<open>n\<close> turns,
  \<open>clock i\<close> being \<^verbatim>\<open>datetime.now()\<close> at turn \<open>i\<close>, when nothing else touches the
  state in between (\<^verbatim>\<open>time.sleep(600)\<close> changes nothing). An exception that left a
  turn would leave the loop, and the turns after it would not run.
\<close>

fun delete_old_files :: "config \<Rightarrow> nat \<Rightarrow> (nat \<Rightarrow> int) \<Rightarrow> (app_state, unit) py" where
  "delete_old_files cfg 0 clock = py_return ()"
| "delete_old_files cfg (Suc n) clock =
     py_then (sweep_cycle cfg (clock 0)) (delete_old_files cfg n (\<lambda>i. clock (Suc i)))"

text \<open>
  Notions for stating what one turn does to a listing. An entry is \<open>stuck\<close> at an
  instant when the loop would remove it and \<^verbatim>\<open>os.remove\<close> raises on it;
  \<open>first_failure\<close> is the text of the exception raised on the first stuck entry;
  \<open>swept\<close> are the expired regular files that stand before the first stuck entry;
  \<open>deletion_log\<close> are the log entries of their removal and \<open>failure_log\<close> is the log
  entry of the handler for the first stuck entry.
\<close>

definition stuck :: "config \<Rightarrow> int \<Rightarrow> file_entry \<Rightarrow> bool" where
  "stuck cfg current_time e =
     (is_file e \<and> expired cfg current_time e \<and> remove_raises e \<noteq> None)"

definition first_failure :: "config \<Rightarrow> int \<Rightarrow> file_entry list \<Rightarrow> string option" where
  "first_failure cfg current_time es =
     (case find (stuck cfg current_time) es of None \<Rightarrow> None | Some e \<Rightarrow> remove_raises e)"

definition swept :: "config \<Rightarrow> int \<Rightarrow> file_entry list \<Rightarrow> file_entry list" where
  "swept cfg current_time es =
     filter (\<lambda>e. is_file e \<and> expired cfg current_time e)
       (takeWhile (\<lambda>e. \<not> stuck cfg current_time e) es)"

definition deletion_log :: "config \<Rightarrow> int \<Rightarrow> file_entry list \<Rightarrow> log_entry list" where
  "deletion_log cfg current_time es =
     map (\<lambda>e. (INFO, ''Deleted: '' @ fname e)) (swept cfg current_time es)"

definition failure_log :: "config \<Rightarrow> int \<Rightarrow> file_entry list \<Rightarrow> log_entry list" where
  "failure_log cfg current_time es =
     (case find (stuck cfg current_time) es of
        None \<Rightarrow> []
      | Some e \<Rightarrow>
          (case remove_raises e of
             None \<Rightarrow> []
           | Some text \<Rightarrow> [(ERROR, ''Deletion error: '' @ text)]))"

text \<open>
  A world with other outcomes of the four library calls of \<open>apply_rtl_to_docx\<close>, and the
  same outcomes of every other call.
\<close>

definition with_rtl ::
  "world \<Rightarrow> string option \<Rightarrow> string + document \<Rightarrow> (string \<Rightarrow> string option) \<Rightarrow> string option \<Rightarrow> world" where
  "with_rtl w import_outcome open_outcome reshaper save_outcome =
     w\<lparr>docx_import_raises := import_outcome, docx_open := open_outcome,
       reshape := reshaper, docx_save_raises := save_outcome\<rparr>"

text \<open>
  Two frames agree when they differ at most in the log and in the trace of the
  documents saved by post-processing; two computations correspond when, started in
  frames that agree, they give the same result and end in frames that agree.
\<close>

definition agree :: "frame \<Rightarrow> frame \<Rightarrow> bool" where
  "agree s t =
     (stats s = stats t \<and> redis s = redis t \<and> fs s = fs t
      \<and> engine_calls s = engine_calls t \<and> pdf_path s = pdf_path t \<and> engine s = engine t)"

definition corresponds :: "(frame, 'a) py \<Rightarrow> (frame, 'a) py \<Rightarrow> bool" where
  "corresponds m m' =
     (\<forall>s t. agree s t \<longrightarrow> fst (m s) = fst (m' t) \<and> agree (snd (m s)) (snd (m' t)))"

text \<open>
  Notions for stating what a request meets on its way. \<open>lookup_ready\<close>: the upload
  passes the three checks of the request, can be saved and read back, and Redis answers
  the lookup, so that the handler reaches the test of the cached result.
  \<open>usable_entry\<close>: the cached result that this test accepts, for an upload and an engine
  name: the value of a live entry that is not empty and whose path exists.
  \<open>engine_writes_output\<close>: the engine of that name returns and has written its output
  file. \<open>stats_ready\<close>: \<^verbatim>\<open>update_stats\<close> returns for that engine name.
  \<open>docx_name\<close> is \<^verbatim>\<open>docx_filename\<close>, the name of the output file of a conversion.
\<close>

definition lookup_ready :: "config \<Rightarrow> world \<Rightarrow> upload \<Rightarrow> 'a app_state_scheme \<Rightarrow> bool" where
  "lookup_ready cfg w f s =
     (up_filename f \<noteq> [] \<and> allowed_file (up_filename f)
      \<and> save_raises w = None \<and> upload_folder (fs s) \<noteq> None \<and> hash_raises w = None
      \<and> (cache_available cfg \<and> redis_client cfg \<longrightarrow> redis_get_raises w = None))"

definition usable_entry ::
  "config \<Rightarrow> world \<Rightarrow> upload \<Rightarrow> string \<Rightarrow> 'a app_state_scheme \<Rightarrow> string option" where
  "usable_entry cfg w f eng s =
     (if cache_available cfg \<and> redis_client cfg
      then (case redis_get (now w) (cache_key (md5_hexdigest cfg (up_content f)) eng) (redis s) of
              None \<Rightarrow> None
            | Some c \<Rightarrow>
                if c \<noteq> [] \<and> path_exists w CONVERTED_FOLDER c (converted_folder (fs s))
                then Some c else None)
      else None)"

definition engine_writes_output :: "world \<Rightarrow> string \<Rightarrow> bool" where
  "engine_writes_output w eng =
     (if eng = ''standard'' then pdf2docx_raises w = None \<and> pdf2docx_writes w
      else aspose_load_raises w = None \<and> aspose_raises w = None \<and> aspose_writes w)"

definition stats_ready :: "'a app_state_scheme \<Rightarrow> string \<Rightarrow> bool" where
  "stats_ready s eng =
     (engine_usage (stats s) eng \<noteq> None \<and> total_conversions (stats s) \<noteq> - 1)"

definition docx_name :: "config \<Rightarrow> world \<Rightarrow> upload \<Rightarrow> string" where
  "docx_name cfg w f = rsplit_head (clean_filename cfg w (up_filename f)) @ ''.docx''"


section \<open>Scenarios\<close>

text \<open>
  Concrete configurations, states, worlds and requests, on which the definitions are
  evaluated. \<open>initial_state\<close> is the state after the module is imported: the counters
  as the source initialises them, both folders created and empty.
\<close>

definition sample_http_text :: "nat \<Rightarrow> string" where
  "sample_http_text code =
     (if code = 400 then ''400 Bad Request: The browser sent a request that this server could not understand.''
      else if code = 503 then ''503 Service Unavailable: The server is temporarily unable to service your request.''
      else ''500 Internal Server Error: The server encountered an internal error.'')"

definition local_config :: config where
  "local_config =
     \<lparr> PDF2DOCX_AVAILABLE = True, ASPOSE_AVAILABLE = False, ARABIC_SUPPORT = True,
       cache_available = False, redis_client = False, app_start_time = 1762000000,
       http_text = sample_http_text, secure_filename = (\<lambda>n. n),
       md5_hexdigest = (\<lambda>b. ''d41d8cd98f00b204e9800998ecf8427e''),
       utc_offset = (\<lambda>t. 0) \<rparr>"

definition redis_config :: config where
  "redis_config = local_config\<lparr>ASPOSE_AVAILABLE := True, cache_available := True, redis_client := True\<rparr>"

definition initial_state :: app_state where
  "initial_state =
     \<lparr> stats = initial_stats,
       redis = \<lparr> kv = Map.empty, total_counter = None \<rparr>,
       fs = \<lparr> upload_folder = Some [], converted_folder = Some [] \<rparr>,
       logged = [], engine_calls = [], docx_saves = [] \<rparr>"

definition quiet_world :: world where
  "quiet_world =
     \<lparr> now = 1762250000, elapsed = 2, unique_id = ''1a2b3c4d'',
       save_raises = None, hash_raises = None,
       redis_get_raises = None, redis_setex_raises = None, redis_incr_raises = None,
       mem_before = Inr ''120.00'', mem_after = Inr ''180.00'',
       pdf2docx_raises = None, pdf2docx_writes = True,
       aspose_load_raises = None, aspose_raises = None, aspose_writes = True,
       docx_import_raises = None, docx_open = Inr [],
       reshape = (\<lambda>t. Some t), docx_save_raises = None,
       exists_elsewhere = (\<lambda>d p. False) \<rparr>"

definition pdf_request :: request where
  "pdf_request =
     \<lparr> req_file = Some \<lparr> up_filename = ''report.pdf'', up_content = ''%PDF-1.4'' \<rparr>,
       req_engine = None \<rparr>"

definition no_file_request :: request where
  "no_file_request = \<lparr> req_file = None, req_engine = None \<rparr>"

definition empty_name_request :: request where
  "empty_name_request =
     \<lparr> req_file = Some \<lparr> up_filename = [], up_content = ''%PDF-1.4'' \<rparr>, req_engine = None \<rparr>"

definition text_request :: request where
  "text_request =
     \<lparr> req_file = Some \<lparr> up_filename = ''notes.txt'', up_content = ''hello'' \<rparr>,
       req_engine = None \<rparr>"

definition high_quality_request :: request where
  "high_quality_request = pdf_request\<lparr>req_engine := Some ''high_quality''\<rparr>"



text \<open>
  The same artifact stored under the high-quality engine, as a process in which Aspose
  was available leaves it, seen by a process in which only pdf2docx is available and
  the cache is on.
\<close>

definition pdf2docx_only_config :: config where
  "pdf2docx_only_config = local_config\<lparr>cache_available := True, redis_client := True\<rparr>"

definition aspose_only_config :: config where
  "aspose_only_config = local_config\<lparr>PDF2DOCX_AVAILABLE := False, ASPOSE_AVAILABLE := True\<rparr>"

definition high_quality_cached_state :: app_state where
  "high_quality_cached_state =
     initial_state\<lparr>
       redis := \<lparr> kv = [cache_key ''d41d8cd98f00b204e9800998ecf8427e'' ''high_quality''
                         \<mapsto> (''report_1a2b3c4d.docx'', 1762253000)],
                  total_counter = Some 1 \<rparr>,
       fs := \<lparr> upload_folder = Some [],
               converted_folder = Some
                 [\<lparr> fname = ''report_1a2b3c4d.docx'', mtime = 1762249400,
                    is_file = True, remove_raises = None \<rparr>] \<rparr>\<rparr>"


text \<open>
  A state for the sweeper, three hours after the files were written: the upload folder
  lists a file that cannot be removed before one that can; the converted folder holds
  one old and one fresh artifact. \<open>sweep_time\<close> is \<^verbatim>\<open>datetime.now()\<close> at the clock
  of \<open>quiet_world\<close>, in the time zone of \<open>local_config\<close>.
\<close>

definition stale_state :: app_state where
  "stale_state =
     initial_state\<lparr>fs :=
       \<lparr> upload_folder = Some
           [\<lparr> fname = ''locked_0a1b2c3d.pdf'', mtime = 1762239200, is_file = True,
              remove_raises = Some ''[Errno 13] Permission denied: uploads/locked_0a1b2c3d.pdf'' \<rparr>,
            \<lparr> fname = ''old_4e5f6a7b.pdf'', mtime = 1762239200, is_file = True, remove_raises = None \<rparr>],
         converted_folder = Some
           [\<lparr> fname = ''old_4e5f6a7b.docx'', mtime = 1762239200, is_file = True, remove_raises = None \<rparr>,
            \<lparr> fname = ''new_8c9d0e1f.docx'', mtime = 1762249900, is_file = True, remove_raises = None \<rparr>] \<rparr>\<rparr>"

text \<open>The same folders without the file that cannot be removed.\<close>

definition aged_state :: app_state where
  "aged_state =
     stale_state\<lparr>fs := (fs stale_state)\<lparr>upload_folder := Some
       [\<lparr> fname = ''old_4e5f6a7b.pdf'', mtime = 1762239200, is_file = True, remove_raises = None \<rparr>]\<rparr>\<rparr>"

definition sweep_time :: int where
  "sweep_time = 1762250000000000"

section \<open>Evaluation\<close>

lemmas py_defs = py_return_def py_raise_def py_bind_def py_then_def py_try_def

lemmas log_defs = info_def warning_def error_def

lemmas post_defs = post_def post_try_def post_except_def convert_def after_lookup_def
  recompute_def cache_hit_def finish_def select_engine_def fallback_branch_def standard_branch_def
  aspose_branch_def rtl_step_def run_aspose_def run_pdf2docx_def log_memory_def
  remove_pdf_path_def remove_upload_def get_file_hash_def file_save_def set_pdf_path_def
  get_engine_def set_engine_def enter_def leave_def requested_engine_def
  apply_rtl_to_docx_def set_cached_result_def get_cached_result_def update_stats_def
  str_exn_def

lemmas fs_defs = path_exists_def plain_name_def os_remove_def write_file_def

lemmas name_defs = allowed_file_def clean_filename_def splitext_def rsplit_head_def
  rsplit_last_def lower_def lower_char_def ALLOWED_EXTENSIONS_def

lemmas redis_defs = redis_get_def redis_setex_def redis_incr_def cache_key_def

lemmas scenario_defs = local_config_def redis_config_def initial_state_def quiet_world_def
  pdf_request_def initial_stats_def sample_http_text_def

lemmas eval_defs = post_defs py_defs log_defs fs_defs name_defs redis_defs scenario_defs
  status_code_def body_message_def Let_def

section \<open>What each step leaves unchanged\<close>

text \<open>
  For every step of the handler, the fields of the state it does not touch; then, for
  every stage, which engine calls it adds to the trace and what a returned response says.
\<close>

lemma py_bind_fst_snd:
  "py_bind m f s = (case fst (m s) of Inl e \<Rightarrow> (Inl e, snd (m s)) | Inr a \<Rightarrow> f a (snd (m s)))"
  by (simp add: py_bind_def split: prod.splits sum.splits)

lemma py_try_fst_snd:
  "py_try m handler s =
     (case fst (m s) of Inl e \<Rightarrow> handler e (snd (m s)) | Inr a \<Rightarrow> (Inr a, snd (m s)))"
  by (simp add: py_try_def split: prod.splits sum.splits)

lemmas seq_defs = py_return_def py_raise_def py_then_def py_bind_fst_snd py_try_fst_snd

lemma update_stats_keeps [simp]:
  "fs (snd (update_stats cfg w b e t s)) = fs s"
  "engine_calls (snd (update_stats cfg w b e t s)) = engine_calls s"
  "docx_saves (snd (update_stats cfg w b e t s)) = docx_saves s"
  "pdf_path (snd (update_stats cfg w b e t fr)) = pdf_path fr"
  "engine (snd (update_stats cfg w b e t fr)) = engine fr"
  by (simp_all add: update_stats_def Let_def split: option.splits)

lemma remove_upload_keeps [simp]:
  "stats (snd (remove_upload w n s)) = stats s"
  "redis (snd (remove_upload w n s)) = redis s"
  "converted_folder (fs (snd (remove_upload w n s))) = converted_folder (fs s)"
  "engine_calls (snd (remove_upload w n s)) = engine_calls s"
  "docx_saves (snd (remove_upload w n s)) = docx_saves s"
  "pdf_path (snd (remove_upload w n fr)) = pdf_path fr"
  "engine (snd (remove_upload w n fr)) = engine fr"
  by (simp_all add: remove_upload_def split: sum.splits)

lemma remove_pdf_path_keeps [simp]:
  "stats (snd (remove_pdf_path w fr)) = stats fr"
  "redis (snd (remove_pdf_path w fr)) = redis fr"
  "converted_folder (fs (snd (remove_pdf_path w fr))) = converted_folder (fs fr)"
  "engine_calls (snd (remove_pdf_path w fr)) = engine_calls fr"
  "docx_saves (snd (remove_pdf_path w fr)) = docx_saves fr"
  "pdf_path (snd (remove_pdf_path w fr)) = pdf_path fr"
  "engine (snd (remove_pdf_path w fr)) = engine fr"
  by (simp_all add: remove_pdf_path_def split: option.splits)

lemma set_cached_result_keeps [simp]:
  "stats (snd (set_cached_result cfg w h e n s)) = stats s"
  "fs (snd (set_cached_result cfg w h e n s)) = fs s"
  "engine_calls (snd (set_cached_result cfg w h e n s)) = engine_calls s"
  "docx_saves (snd (set_cached_result cfg w h e n s)) = docx_saves s"
  "pdf_path (snd (set_cached_result cfg w h e n fr)) = pdf_path fr"
  "engine (snd (set_cached_result cfg w h e n fr)) = engine fr"
  by (simp_all add: set_cached_result_def split: option.splits)

lemma get_cached_result_keeps [simp]:
  "stats (snd (get_cached_result cfg w h e s)) = stats s"
  "redis (snd (get_cached_result cfg w h e s)) = redis s"
  "fs (snd (get_cached_result cfg w h e s)) = fs s"
  "engine_calls (snd (get_cached_result cfg w h e s)) = engine_calls s"
  "docx_saves (snd (get_cached_result cfg w h e s)) = docx_saves s"
  "pdf_path (snd (get_cached_result cfg w h e fr)) = pdf_path fr"
  "engine (snd (get_cached_result cfg w h e fr)) = engine fr"
  by (simp_all add: get_cached_result_def split: option.splits)

lemma get_cached_result_hit:
  assumes "fst (get_cached_result cfg w h e s) = Inr (Some c)"
  shows "c \<noteq> [] \<and> cache_available cfg \<and> redis_client cfg
         \<and> (\<exists>expiry. kv (redis s) (cache_key h e) = Some (c, expiry) \<and> now w < expiry)"
  using assms
  by (auto simp: get_cached_result_def redis_get_def split: option.splits if_splits)

lemma file_save_keeps [simp]:
  "stats (snd (file_save w n s)) = stats s"
  "redis (snd (file_save w n s)) = redis s"
  "converted_folder (fs (snd (file_save w n s))) = converted_folder (fs s)"
  "engine_calls (snd (file_save w n s)) = engine_calls s"
  "docx_saves (snd (file_save w n s)) = docx_saves s"
  "pdf_path (snd (file_save w n fr)) = pdf_path fr"
  "engine (snd (file_save w n fr)) = engine fr"
  by (simp_all add: file_save_def split: option.splits)

lemma get_file_hash_keeps [simp]:
  "snd (get_file_hash cfg w f s) = s"
  by (simp add: get_file_hash_def split: option.splits)

lemma get_file_hash_value:
  "fst (get_file_hash cfg w f s) = Inr h \<Longrightarrow> h = md5_hexdigest cfg (up_content f)"
  by (simp add: get_file_hash_def split: option.splits)

lemma rtl_step_keeps [simp]:
  "stats (snd (rtl_step cfg w d a b s)) = stats s"
  "redis (snd (rtl_step cfg w d a b s)) = redis s"
  "fs (snd (rtl_step cfg w d a b s)) = fs s"
  "engine_calls (snd (rtl_step cfg w d a b s)) = engine_calls s"
  "pdf_path (snd (rtl_step cfg w d a b fr)) = pdf_path fr"
  "engine (snd (rtl_step cfg w d a b fr)) = engine fr"
  "fst (rtl_step cfg w d a b s) = Inr ()"
  by (simp_all add: rtl_step_def apply_rtl_to_docx_def info_def warning_def
        split: option.splits sum.splits prod.splits bool.splits)

lemma log_memory_keeps [simp]:
  "stats (snd (log_memory l r s)) = stats s"
  "redis (snd (log_memory l r s)) = redis s"
  "fs (snd (log_memory l r s)) = fs s"
  "engine_calls (snd (log_memory l r s)) = engine_calls s"
  "docx_saves (snd (log_memory l r s)) = docx_saves s"
  "pdf_path (snd (log_memory l r fr)) = pdf_path fr"
  "engine (snd (log_memory l r fr)) = engine fr"
  by (simp_all add: log_memory_def info_def split: sum.splits)

lemma run_pdf2docx_keeps [simp]:
  "stats (snd (run_pdf2docx w d s)) = stats s"
  "redis (snd (run_pdf2docx w d s)) = redis s"
  "upload_folder (fs (snd (run_pdf2docx w d s))) = upload_folder (fs s)"
  "engine_calls (snd (run_pdf2docx w d s)) = engine_calls s @ [''standard'']"
  "docx_saves (snd (run_pdf2docx w d s)) = docx_saves s"
  "pdf_path (snd (run_pdf2docx w d fr)) = pdf_path fr"
  "engine (snd (run_pdf2docx w d fr)) = engine fr"
  by (simp_all add: run_pdf2docx_def Let_def split: option.splits)

lemma run_aspose_keeps [simp]:
  "stats (snd (run_aspose w v d s)) = stats s"
  "redis (snd (run_aspose w v d s)) = redis s"
  "upload_folder (fs (snd (run_aspose w v d s))) = upload_folder (fs s)"
  "engine_calls (snd (run_aspose w v d s)) = engine_calls s @ [''high_quality'']"
  "docx_saves (snd (run_aspose w v d s)) = docx_saves s"
  "pdf_path (snd (run_aspose w v d fr)) = pdf_path fr"
  "engine (snd (run_aspose w v d fr)) = engine fr"
  by (simp_all add: run_aspose_def Let_def split: option.splits)

lemma info_keeps [simp]:
  "stats (snd (info m s)) = stats s" "redis (snd (info m s)) = redis s" "fs (snd (info m s)) = fs s"
  "engine_calls (snd (info m s)) = engine_calls s" "docx_saves (snd (info m s)) = docx_saves s"
  "pdf_path (snd (info m fr)) = pdf_path fr" "engine (snd (info m fr)) = engine fr"
  "fst (info m s) = Inr ()"
  by (simp_all add: info_def)

lemma warning_keeps [simp]:
  "stats (snd (warning m s)) = stats s" "redis (snd (warning m s)) = redis s" "fs (snd (warning m s)) = fs s"
  "engine_calls (snd (warning m s)) = engine_calls s" "docx_saves (snd (warning m s)) = docx_saves s"
  "pdf_path (snd (warning m fr)) = pdf_path fr" "engine (snd (warning m fr)) = engine fr"
  "fst (warning m s) = Inr ()"
  by (simp_all add: warning_def)

lemma error_keeps [simp]:
  "stats (snd (error m s)) = stats s" "redis (snd (error m s)) = redis s" "fs (snd (error m s)) = fs s"
  "engine_calls (snd (error m s)) = engine_calls s" "docx_saves (snd (error m s)) = docx_saves s"
  "pdf_path (snd (error m fr)) = pdf_path fr" "engine (snd (error m fr)) = engine fr"
  "fst (error m s) = Inr ()"
  by (simp_all add: error_def)

lemma post_except_sum:
  "engine_calls (snd (post_except cfg w e s)) = engine_calls s"
  "converted_folder (fs (snd (post_except cfg w e s))) = converted_folder (fs s)"
  "fst (post_except cfg w e s) \<noteq> Inr resp"
  by (simp_all add: post_except_def seq_defs split: sum.splits)

lemma cache_hit_sum:
  "engine_calls (snd (cache_hit cfg w c s)) = engine_calls s"
  "converted_folder (fs (snd (cache_hit cfg w c s))) = converted_folder (fs s)"
  "fst (cache_hit cfg w c s) = Inr resp \<Longrightarrow>
     cached resp \<and> filename resp = c \<and> Some (engine_used resp) = engine s"
  by (auto simp add: cache_hit_def get_engine_def seq_defs split: sum.splits option.splits)

lemma finish_sum:
  "engine_calls (snd (finish cfg w sf d fh ok s)) = engine_calls s"
  "converted_folder (fs (snd (finish cfg w sf d fh ok s))) = converted_folder (fs s)"
  "fst (finish cfg w sf d fh ok s) = Inr resp \<Longrightarrow>
     \<not> cached resp \<and> filename resp = d \<and> Some (engine_used resp) = engine s
     \<and> path_exists w CONVERTED_FOLDER d (converted_folder (fs s))"
  by (auto simp add: finish_def get_engine_def seq_defs split: sum.splits option.splits if_splits)

lemma standard_branch_sum:
  "engine_calls (snd (standard_branch cfg w d s)) = engine_calls s @ [''standard'']"
  "engine (snd (standard_branch cfg w d s)) = engine s"
  by (simp_all add: standard_branch_def seq_defs split: sum.splits)

lemma aspose_branch_sum:
  "engine_calls (snd (aspose_branch cfg w d s)) = engine_calls s
   \<or> engine_calls (snd (aspose_branch cfg w d s)) = engine_calls s @ [''high_quality'']"
  "engine (snd (aspose_branch cfg w d s)) = engine s"
  "fst (aspose_branch cfg w d s) = Inr ok \<Longrightarrow>
     engine_calls (snd (aspose_branch cfg w d s)) = engine_calls s @ [''high_quality'']"
  by (auto simp add: aspose_branch_def seq_defs split: sum.splits prod.splits)


lemma fallback_branch_sum:
  "engine_calls (snd (fallback_branch cfg w d s)) =
     engine_calls s @ (if PDF2DOCX_AVAILABLE cfg then [''standard'']
                       else if ASPOSE_AVAILABLE cfg then [''high_quality''] else [])"
  "fst (fallback_branch cfg w d s) = Inr ok \<Longrightarrow>
     engine (snd (fallback_branch cfg w d s)) =
       (if PDF2DOCX_AVAILABLE cfg then Some ''standard''
        else if ASPOSE_AVAILABLE cfg then Some ''high_quality'' else None)
     \<and> (PDF2DOCX_AVAILABLE cfg \<or> ASPOSE_AVAILABLE cfg)"
  by (auto simp add: fallback_branch_def set_engine_def get_engine_def seq_defs
        split: sum.splits option.splits if_splits)

lemma select_engine_calls:
  assumes "engine s = Some eng"
  shows "engine_calls (snd (select_engine cfg w d s)) = engine_calls s
         \<or> (\<exists>e. chosen_engine cfg eng = Some e
                \<and> engine_calls (snd (select_engine cfg w d s)) = engine_calls s @ [e])"
  using assms aspose_branch_sum(1) [of cfg w d s]
  by (auto simp add: select_engine_def get_engine_def seq_defs chosen_engine_def
        standard_branch_sum fallback_branch_sum split: if_splits)

lemma select_engine_returns:
  assumes "engine s = Some eng" "fst (select_engine cfg w d s) = Inr ok"
  shows "\<exists>e. chosen_engine cfg eng = Some e
             \<and> engine_calls (snd (select_engine cfg w d s)) = engine_calls s @ [e]
             \<and> engine (snd (select_engine cfg w d s)) = Some e"
  using assms fallback_branch_sum(2) [of cfg w d s ok]
  by (auto simp add: select_engine_def get_engine_def seq_defs chosen_engine_def
        standard_branch_sum fallback_branch_sum(1) aspose_branch_sum(2,3) split: if_splits)

lemma recompute_calls:
  assumes "engine s = Some eng"
  shows "engine_calls (snd (recompute cfg w sf fh s)) = engine_calls s
         \<or> (\<exists>e. chosen_engine cfg eng = Some e
                \<and> engine_calls (snd (recompute cfg w sf fh s)) = engine_calls s @ [e])"
  using select_engine_calls [OF assms, of cfg w "rsplit_head sf @ ''.docx''"]
  by (auto simp add: recompute_def Let_def seq_defs finish_sum split: sum.splits)

lemma recompute_returns:
  assumes "engine s = Some eng" "fst (recompute cfg w sf fh s) = Inr resp"
  shows "\<not> cached resp \<and> chosen_engine cfg eng = Some (engine_used resp)
         \<and> filename resp = rsplit_head sf @ ''.docx''
         \<and> engine_calls (snd (recompute cfg w sf fh s)) = engine_calls s @ [engine_used resp]
         \<and> path_exists w CONVERTED_FOLDER (filename resp) (converted_folder (fs (snd (recompute cfg w sf fh s))))"
proof -
  let ?d = "rsplit_head sf @ ''.docx''"
  from assms(2) obtain ok where
    sel: "fst (select_engine cfg w ?d s) = Inr ok" and
    fin: "fst (finish cfg w sf ?d fh ok (snd (select_engine cfg w ?d s))) = Inr resp" and
    st: "snd (recompute cfg w sf fh s) = snd (finish cfg w sf ?d fh ok (snd (select_engine cfg w ?d s)))"
    by (auto simp add: recompute_def Let_def seq_defs split: sum.splits)
  from select_engine_returns [OF assms(1) sel] obtain e where
    e: "chosen_engine cfg eng = Some e"
       "engine_calls (snd (select_engine cfg w ?d s)) = engine_calls s @ [e]"
       "engine (snd (select_engine cfg w ?d s)) = Some e"
    by blast
  from finish_sum(3) [OF fin] e show ?thesis
    by (auto simp add: st finish_sum)
qed


lemma set_engine_keeps [simp]:
  "stats (snd (set_engine e s)) = stats s" "redis (snd (set_engine e s)) = redis s"
  "fs (snd (set_engine e s)) = fs s" "engine_calls (snd (set_engine e s)) = engine_calls s"
  "docx_saves (snd (set_engine e s)) = docx_saves s" "pdf_path (snd (set_engine e s)) = pdf_path s"
  "engine (snd (set_engine e s)) = Some e" "fst (set_engine e s) = Inr ()"
  by (simp_all add: set_engine_def)

lemma set_pdf_path_keeps [simp]:
  "stats (snd (set_pdf_path p s)) = stats s" "redis (snd (set_pdf_path p s)) = redis s"
  "fs (snd (set_pdf_path p s)) = fs s" "engine_calls (snd (set_pdf_path p s)) = engine_calls s"
  "docx_saves (snd (set_pdf_path p s)) = docx_saves s" "pdf_path (snd (set_pdf_path p s)) = Some p"
  "engine (snd (set_pdf_path p s)) = engine s" "fst (set_pdf_path p s) = Inr ()"
  by (simp_all add: set_pdf_path_def)

lemma get_engine_keeps [simp]:
  "snd (get_engine s) = s"
  "engine s = Some e \<Longrightarrow> fst (get_engine s) = Inr e"
  by (simp_all add: get_engine_def split: option.splits)

lemma after_lookup_calls:
  assumes "engine s = Some eng"
  shows "engine_calls (snd (after_lookup cfg w sf h cr s)) = engine_calls s
         \<or> (\<exists>e. chosen_engine cfg eng = Some e
                \<and> engine_calls (snd (after_lookup cfg w sf h cr s)) = engine_calls s @ [e])"
  using recompute_calls [OF assms, of cfg w sf h]
  by (auto simp add: after_lookup_def cache_hit_sum split: option.splits)

lemma after_lookup_returns:
  assumes "engine s = Some eng" "fst (after_lookup cfg w sf h cr s) = Inr resp"
  shows "(if cached resp
          then cr = Some (filename resp) \<and> engine_used resp = eng
               \<and> path_exists w CONVERTED_FOLDER (filename resp) (converted_folder (fs s))
               \<and> engine_calls (snd (after_lookup cfg w sf h cr s)) = engine_calls s
          else chosen_engine cfg eng = Some (engine_used resp)
               \<and> filename resp = rsplit_head sf @ ''.docx''
               \<and> engine_calls (snd (after_lookup cfg w sf h cr s)) = engine_calls s @ [engine_used resp])
         \<and> path_exists w CONVERTED_FOLDER (filename resp) (converted_folder (fs (snd (after_lookup cfg w sf h cr s))))"
proof (cases "\<exists>c. cr = Some c \<and> c \<noteq> [] \<and> path_exists w CONVERTED_FOLDER c (converted_folder (fs s))")
  case True
  then obtain c where c: "cr = Some c" "c \<noteq> []" "path_exists w CONVERTED_FOLDER c (converted_folder (fs s))"
    by blast
  then have eq: "after_lookup cfg w sf h cr s = cache_hit cfg w c s"
    by (simp add: after_lookup_def)
  from assms(2) have "fst (cache_hit cfg w c s) = Inr resp"
    by (simp add: eq)
  from cache_hit_sum(3) [OF this] assms(1) c show ?thesis
    unfolding eq by (auto simp add: cache_hit_sum)
next
  case False
  then have eq: "after_lookup cfg w sf h cr s = recompute cfg w sf h s"
    by (auto simp add: after_lookup_def split: option.splits)
  from recompute_returns [OF assms(1), of cfg w sf h resp] assms(2) show ?thesis
    by (auto simp add: eq)
qed

lemma convert_cases:
  obtains
    (failed) e where
      "fst (convert cfg w req f s) = Inl e"
      "engine_calls (snd (convert cfg w req f s)) = engine_calls s"
      "redis (snd (convert cfg w req f s)) = redis s"
  | (looked_up) cr t where
      "fst (get_cached_result cfg w (md5_hexdigest cfg (up_content f)) (requested_engine req) t) = Inr cr"
      "convert cfg w req f s =
         after_lookup cfg w (clean_filename cfg w (up_filename f)) (md5_hexdigest cfg (up_content f)) cr
           (snd (get_cached_result cfg w (md5_hexdigest cfg (up_content f)) (requested_engine req) t))"
      "engine t = Some (requested_engine req)"
      "engine_calls t = engine_calls s"
      "redis t = redis s"
      "converted_folder (fs t) = converted_folder (fs s)"
proof -
  define eng where "eng = requested_engine req"
  define sf where "sf = clean_filename cfg w (up_filename f)"
  define s1 where
    "s1 = snd (set_pdf_path sf (snd (info (''Starting the conversion with engine: '' @ eng)
            (snd (set_engine eng s)))))"
  define t where "t = snd (file_save w sf s1)"
  define h where "h = md5_hexdigest cfg (up_content f)"
  have t_props: "engine t = Some eng" "engine_calls t = engine_calls s" "redis t = redis s"
      "converted_folder (fs t) = converted_folder (fs s)"
    by (simp_all add: t_def s1_def)
  have unfold: "convert cfg w req f s =
      (case fst (file_save w sf s1) of
         Inl e \<Rightarrow> (Inl e, t)
       | Inr _ \<Rightarrow>
           (case fst (get_file_hash cfg w f t) of
              Inl e \<Rightarrow> (Inl e, t)
            | Inr h' \<Rightarrow>
                (case fst (get_cached_result cfg w h' eng t) of
                   Inl e \<Rightarrow> (Inl e, snd (get_cached_result cfg w h' eng t))
                 | Inr cr \<Rightarrow> after_lookup cfg w sf h' cr (snd (get_cached_result cfg w h' eng t)))))"
    unfolding convert_def eng_def [symmetric] sf_def [symmetric] Let_def
    by (simp add: seq_defs t_def s1_def split: sum.splits)
  show thesis
  proof (cases "fst (file_save w sf s1)")
    case (Inl e)
    then show thesis
      using t_props by (intro failed [of e]) (simp_all add: unfold)
  next
    case saved: (Inr u)
    show thesis
    proof (cases "fst (get_file_hash cfg w f t)")
      case (Inl e)
      then show thesis
        using t_props saved by (intro failed [of e]) (simp_all add: unfold)
    next
      case hashed: (Inr h')
      then have h': "h' = h"
        by (simp add: h_def get_file_hash_value)
      show thesis
      proof (cases "fst (get_cached_result cfg w h eng t)")
        case (Inl e)
        then show thesis
          using t_props saved hashed h' by (intro failed [of e]) (simp_all add: unfold)
      next
        case (Inr cr)
        then show thesis
          using t_props saved hashed h'
          by (intro looked_up [of t cr]) (simp_all add: unfold eng_def sf_def h_def)
      qed
    qed
  qed
qed

lemma convert_calls:
  "engine_calls (snd (convert cfg w req f s)) = engine_calls s
   \<or> (\<exists>e. chosen_engine cfg (requested_engine req) = Some e
          \<and> engine_calls (snd (convert cfg w req f s)) = engine_calls s @ [e])"
proof (cases rule: convert_cases [of cfg w req f s])
  case (failed e)
  then show ?thesis by simp
next
  case (looked_up cr t)
  let ?t = "snd (get_cached_result cfg w (md5_hexdigest cfg (up_content f)) (requested_engine req) t)"
  have "engine ?t = Some (requested_engine req)"
    using looked_up(3) by simp
  from after_lookup_calls [OF this, of cfg w "clean_filename cfg w (up_filename f)"
      "md5_hexdigest cfg (up_content f)" cr]
  show ?thesis
    using looked_up by simp
qed

lemma convert_returns:
  assumes "fst (convert cfg w req f s) = Inr resp"
  shows "(if cached resp
          then engine_used resp = requested_engine req
               \<and> cache_available cfg \<and> redis_client cfg \<and> filename resp \<noteq> []
               \<and> (\<exists>expiry. kv (redis s) (cache_key (md5_hexdigest cfg (up_content f))
                                 (requested_engine req)) = Some (filename resp, expiry)
                           \<and> now w < expiry)
               \<and> path_exists w CONVERTED_FOLDER (filename resp) (converted_folder (fs s))
               \<and> engine_calls (snd (convert cfg w req f s)) = engine_calls s
          else chosen_engine cfg (requested_engine req) = Some (engine_used resp)
               \<and> filename resp = docx_name cfg w f
               \<and> engine_calls (snd (convert cfg w req f s)) = engine_calls s @ [engine_used resp])
         \<and> path_exists w CONVERTED_FOLDER (filename resp) (converted_folder (fs (snd (convert cfg w req f s))))"
proof (cases rule: convert_cases [of cfg w req f s])
  case (failed e)
  with assms show ?thesis by simp
next
  case (looked_up cr t)
  let ?h = "md5_hexdigest cfg (up_content f)"
  let ?t = "snd (get_cached_result cfg w ?h (requested_engine req) t)"
  have eng: "engine ?t = Some (requested_engine req)"
    using looked_up(3) by simp
  have ret: "fst (after_lookup cfg w (clean_filename cfg w (up_filename f)) ?h cr ?t) = Inr resp"
    using assms looked_up(2) by simp
  note al = after_lookup_returns [OF eng ret]
  show ?thesis
  proof (cases "cached resp")
    case True
    with al have cr: "cr = Some (filename resp)" by simp
    from get_cached_result_hit [OF looked_up(1) [unfolded cr]] al True looked_up(2,4,5,6)
    show ?thesis unfolding cr by auto
  next
    case False
    with al looked_up show ?thesis by (auto simp add: docx_name_def)
  qed
qed

lemma enter_leave [simp]:
  "stats (enter s) = stats s" "redis (enter s) = redis s" "fs (enter s) = fs s"
  "logged (enter s) = logged s" "engine_calls (enter s) = engine_calls s"
  "docx_saves (enter s) = docx_saves s" "pdf_path (enter s) = None" "engine (enter s) = None"
  "stats (leave fr) = stats fr" "redis (leave fr) = redis fr" "fs (leave fr) = fs fr"
  "logged (leave fr) = logged fr" "engine_calls (leave fr) = engine_calls fr"
  "docx_saves (leave fr) = docx_saves fr"
  by (simp_all add: enter_def leave_def)

lemma post_try_cases:
  obtains
    (invalid)
      "\<forall>resp. fst (post_try cfg w req s) \<noteq> Inr resp"
      "engine_calls (snd (post_try cfg w req s)) = engine_calls s"
  | (valid) f where
      "req_file req = Some f"
      "post_try cfg w req s = convert cfg w req f s"
proof (cases "req_file req")
  case None
  then show thesis
    by (intro invalid) (simp_all add: post_try_def seq_defs split: sum.splits)
next
  case (Some f)
  show thesis
  proof (cases "up_filename f = [] \<or> \<not> allowed_file (up_filename f)")
    case True
    with Some show thesis
      by (intro invalid) (auto simp add: post_try_def seq_defs split: sum.splits)
  next
    case False
    with Some show thesis
      by (intro valid [of f]) (simp_all add: post_try_def)
  qed
qed

lemma post_fst_snd:
  "fst (post cfg w req s) =
     (case fst (post_try cfg w req (enter s)) of
        Inl e \<Rightarrow> fst (post_except cfg w e (snd (post_try cfg w req (enter s))))
      | Inr r \<Rightarrow> Inr r)"
  "snd (post cfg w req s) =
     (case fst (post_try cfg w req (enter s)) of
        Inl e \<Rightarrow> leave (snd (post_except cfg w e (snd (post_try cfg w req (enter s)))))
      | Inr r \<Rightarrow> leave (snd (post_try cfg w req (enter s))))"
  by (simp_all add: post_def py_try_fst_snd split: sum.splits prod.splits)

lemma post_calls:
  "engine_calls (snd (post cfg w req s)) = engine_calls (snd (post_try cfg w req (enter s)))"
  by (simp add: post_fst_snd post_except_sum split: sum.splits)

lemma post_returns:
  assumes "fst (post cfg w req s) = Inr resp"
  obtains f where "req_file req = Some f"
    "fst (convert cfg w req f (enter s)) = Inr resp"
    "snd (post cfg w req s) = leave (snd (convert cfg w req f (enter s)))"
proof -
  from assms have ret: "fst (post_try cfg w req (enter s)) = Inr resp"
    by (auto simp add: post_fst_snd post_except_sum split: sum.splits)
  then have st: "snd (post cfg w req s) = leave (snd (post_try cfg w req (enter s)))"
    by (simp add: post_fst_snd)
  show thesis
  proof (cases rule: post_try_cases [of cfg w req "enter s"])
    case invalid
    with ret show thesis by simp
  next
    case (valid f)
    with ret st show thesis by (intro that [of f]) simp_all
  qed
qed

lemma chosen_engine_fallback:
  assumes "engines cfg eng = Some False" "engines cfg alt = Some True"
  shows "chosen_engine cfg eng = Some alt"
  using assms by (auto simp add: engines_def chosen_engine_def split: if_splits)

lemma update_stats_kv [simp]:
  "kv (redis (snd (update_stats cfg w b e t s))) = kv (redis s)"
  by (simp add: update_stats_def Let_def redis_incr_def split: option.splits)

lemma set_cached_result_kv:
  "kv (redis (snd (set_cached_result cfg w h e n s))) = kv (redis s)
   \<or> kv (redis (snd (set_cached_result cfg w h e n s)))
       = (kv (redis s))(cache_key h e \<mapsto> (n, now w + 3600))"
  by (simp add: set_cached_result_def redis_setex_def split: option.splits)

lemma post_except_kv:
  "kv (redis (snd (post_except cfg w e s))) = kv (redis s)"
  by (simp add: post_except_def seq_defs split: sum.splits)

lemma cache_hit_kv:
  "kv (redis (snd (cache_hit cfg w c s))) = kv (redis s)"
  by (auto simp add: cache_hit_def get_engine_def seq_defs split: sum.splits option.splits)

lemma standard_branch_redis:
  "redis (snd (standard_branch cfg w d s)) = redis s"
  by (simp add: standard_branch_def seq_defs split: sum.splits)

lemma aspose_branch_redis:
  "redis (snd (aspose_branch cfg w d s)) = redis s"
  by (auto simp add: aspose_branch_def seq_defs split: sum.splits)

lemma fallback_branch_kv:
  "kv (redis (snd (fallback_branch cfg w d s))) = kv (redis s)"
  by (auto simp add: fallback_branch_def get_engine_def seq_defs
        split: sum.splits option.splits if_splits)

lemma select_engine_kv:
  "kv (redis (snd (select_engine cfg w d s))) = kv (redis s)"
  by (auto simp add: select_engine_def get_engine_def seq_defs standard_branch_redis
        aspose_branch_redis fallback_branch_kv split: sum.splits option.splits if_splits)

lemma finish_kv:
  "kv (redis (snd (finish cfg w sf d h ok s))) = kv (redis s)
   \<or> (\<exists>eng. engine s = Some eng
          \<and> kv (redis (snd (finish cfg w sf d h ok s)))
              = (kv (redis s))(cache_key h eng \<mapsto> (d, now w + 3600)))"
proof (cases "engine s")
  case None
  then show ?thesis
    by (auto simp add: finish_def get_engine_def seq_defs split: sum.splits if_splits)
next
  case (Some eng)
  let ?t = "snd (set_cached_result cfg w h eng d s)"
  have "kv (redis (snd (finish cfg w sf d h ok s))) = kv (redis s)
        \<or> kv (redis (snd (finish cfg w sf d h ok s))) = kv (redis ?t)"
    using Some
    by (auto simp add: finish_def get_engine_def seq_defs split: sum.splits if_splits)
  with set_cached_result_kv [of cfg w h eng d s] Some show ?thesis
    by auto
qed


lemma recompute_kv:
  assumes "engine s = Some eng"
  shows "kv (redis (snd (recompute cfg w sf h s))) = kv (redis s)
         \<or> (\<exists>e. chosen_engine cfg eng = Some e
                \<and> engine_calls (snd (recompute cfg w sf h s)) = engine_calls s @ [e]
                \<and> kv (redis (snd (recompute cfg w sf h s)))
                    = (kv (redis s))(cache_key h e \<mapsto> (rsplit_head sf @ ''.docx'', now w + 3600)))"
proof -
  let ?d = "rsplit_head sf @ ''.docx''"
  let ?t = "snd (select_engine cfg w ?d s)"
  show ?thesis
  proof (cases "fst (select_engine cfg w ?d s)")
    case (Inl e)
    then have "snd (recompute cfg w sf h s) = ?t"
      by (simp add: recompute_def Let_def seq_defs)
    then show ?thesis
      by (simp add: select_engine_kv)
  next
    case (Inr ok)
    then have st: "snd (recompute cfg w sf h s) = snd (finish cfg w sf ?d h ok ?t)"
      by (simp add: recompute_def Let_def seq_defs)
    from select_engine_returns [OF assms Inr] obtain e where
      e: "chosen_engine cfg eng = Some e" "engine_calls ?t = engine_calls s @ [e]"
         "engine ?t = Some e"
      by blast
    from finish_kv [of cfg w sf ?d h ok ?t] e show ?thesis
      by (auto simp add: st finish_sum select_engine_kv)
  qed
qed

lemma after_lookup_kv:
  assumes "engine s = Some eng"
  shows "kv (redis (snd (after_lookup cfg w sf h cr s))) = kv (redis s)
         \<or> (\<exists>e. chosen_engine cfg eng = Some e
                \<and> engine_calls (snd (after_lookup cfg w sf h cr s)) = engine_calls s @ [e]
                \<and> kv (redis (snd (after_lookup cfg w sf h cr s)))
                    = (kv (redis s))(cache_key h e \<mapsto> (rsplit_head sf @ ''.docx'', now w + 3600)))"
  using recompute_kv [OF assms, of cfg w sf h]
  by (auto simp add: after_lookup_def cache_hit_kv split: option.splits)

lemma convert_kv:
  "kv (redis (snd (convert cfg w req f s))) = kv (redis s)
   \<or> (\<exists>e. chosen_engine cfg (requested_engine req) = Some e
          \<and> engine_calls (snd (convert cfg w req f s)) = engine_calls s @ [e]
          \<and> kv (redis (snd (convert cfg w req f s)))
              = (kv (redis s))(cache_key (md5_hexdigest cfg (up_content f)) e
                   \<mapsto> (docx_name cfg w f, now w + 3600)))"
proof (cases rule: convert_cases [of cfg w req f s])
  case (failed e)
  then show ?thesis by simp
next
  case (looked_up cr t)
  let ?h = "md5_hexdigest cfg (up_content f)"
  let ?t = "snd (get_cached_result cfg w ?h (requested_engine req) t)"
  have "engine ?t = Some (requested_engine req)"
    using looked_up(3) by simp
  from after_lookup_kv [OF this, of cfg w "clean_filename cfg w (up_filename f)" ?h cr]
  show ?thesis
    using looked_up(2,4,5) by (auto simp add: docx_name_def)
qed

lemma post_kv:
  "kv (redis (snd (post cfg w req s))) = kv (redis s)
   \<or> (\<exists>e f. req_file req = Some f
          \<and> chosen_engine cfg (requested_engine req) = Some e
          \<and> engine_calls (snd (post cfg w req s)) = engine_calls s @ [e]
          \<and> kv (redis (snd (post cfg w req s)))
              = (kv (redis s))(cache_key (md5_hexdigest cfg (up_content f)) e
                   \<mapsto> (docx_name cfg w f, now w + 3600)))"
proof -
  have kv: "kv (redis (snd (post cfg w req s))) = kv (redis (snd (post_try cfg w req (enter s))))"
    by (simp add: post_fst_snd post_except_kv split: sum.splits)
  show ?thesis
  proof (cases "req_file req")
    case None
    then show ?thesis
      by (simp add: kv post_try_def seq_defs split: sum.splits)
  next
    case (Some f)
    show ?thesis
    proof (cases "up_filename f = [] \<or> \<not> allowed_file (up_filename f)")
      case True
      with Some show ?thesis
        by (auto simp add: kv post_try_def seq_defs split: sum.splits)
    next
      case False
      with Some have "post_try cfg w req (enter s) = convert cfg w req f (enter s)"
        by (simp add: post_try_def)
      with convert_kv [of cfg w req f "enter s"] Some show ?thesis
        by (auto simp add: kv post_calls)
    qed
  qed
qed

section \<open>Requests that fail validation\<close>

text \<open>
  C1. A request without a file, with an empty file name, or with an extension outside
  the accepted set should end in a client error (status 4xx) and create no artifact.
  The source calls \<^verbatim>\<open>api.abort(400, ...)\<close> for each of the three, but only after
  \<^verbatim>\<open>update_stats(False, 'unknown', ...)\<close>, and \<^verbatim>\<open>'unknown'\<close> is not a key of
  \<^verbatim>\<open>engine_usage\<close>: the call raises \<^verbatim>\<open>KeyError\<close> inside the \<^verbatim>\<open>try\<close>, the
  \<^verbatim>\<open>except\<close> clause calls it again, and the second \<^verbatim>\<open>KeyError\<close> leaves the
  method: the request is answered with status 500. Were \<^verbatim>\<open>'unknown'\<close> a key, the
  \<^verbatim>\<open>except Exception\<close> clause would still catch the HTTP exception of status 400 and
  abort with status 500. The folders are left as they were.
\<close>

theorem invalid_request_answered_500:
  "fst (post local_config quiet_world no_file_request initial_state) = Inl (KeyError ''unknown'')
   \<and> fst (post local_config quiet_world empty_name_request initial_state) = Inl (KeyError ''unknown'')
   \<and> fst (post local_config quiet_world text_request initial_state) = Inl (KeyError ''unknown'')
   \<and> status_code (fst (post local_config quiet_world text_request initial_state)) = 500
   \<and> fst (post local_config quiet_world text_request
            (initial_state\<lparr>stats := initial_stats\<lparr>engine_usage :=
               (engine_usage initial_stats)(''unknown'' \<mapsto> 0)\<rparr>\<rparr>))
       = Inl (HTTPException 500 (sample_http_text 400))
   \<and> fs (snd (post local_config quiet_world text_request initial_state)) = fs initial_state"
  by (simp add: eval_defs no_file_request_def empty_name_request_def text_request_def)

text \<open>
  C2. Every request should be recorded by \<^verbatim>\<open>update_stats\<close> exactly once. A request
  that fails validation is recorded twice, once before \<^verbatim>\<open>api.abort\<close> and once more
  by the \<^verbatim>\<open>except\<close> clause that catches what the first call or the abort raises: the
  total and the failure count both grow by two. The same holds when no engine is
  available: the request is recorded before \<^verbatim>\<open>api.abort(503, ...)\<close> and again by
  the \<^verbatim>\<open>except\<close> clause, which turns the answer into status 500. A request that
  is converted, and one whose engine raises, are recorded once.
\<close>

theorem failed_request_recorded_twice:
  "total_conversions (stats (snd (post local_config quiet_world no_file_request initial_state)))
     = total_conversions (stats initial_state) + 2
   \<and> failed_conversions (stats (snd (post local_config quiet_world no_file_request initial_state)))
     = failed_conversions (stats initial_state) + 2
   \<and> total_conversions (stats (snd (post (local_config\<lparr>PDF2DOCX_AVAILABLE := False\<rparr>)
        quiet_world pdf_request initial_state)))
     = total_conversions (stats initial_state) + 2
   \<and> fst (post (local_config\<lparr>PDF2DOCX_AVAILABLE := False\<rparr>) quiet_world pdf_request initial_state)
     = Inl (HTTPException 500 (sample_http_text 503))
   \<and> total_conversions (stats (snd (post local_config quiet_world pdf_request initial_state)))
     = total_conversions (stats initial_state) + 1
   \<and> total_conversions (stats (snd (post local_config
        (quiet_world\<lparr>pdf2docx_raises := Some ''cannot open broken document''\<rparr>)
        pdf_request initial_state)))
     = total_conversions (stats initial_state) + 1"
  by (simp add: eval_defs no_file_request_def)

section \<open>Failures of the cache backend\<close>

text \<open>
  C3. A failure of Redis during the lookup or the store should be swallowed and the
  conversion should go on. \<^verbatim>\<open>get_cached_result\<close> and \<^verbatim>\<open>set_cached_result\<close> have no
  \<^verbatim>\<open>try\<close> (unlike the Redis calls of \<^verbatim>\<open>update_stats\<close> and \<^verbatim>\<open>Stats.get\<close>), so the
  exception reaches the \<^verbatim>\<open>except\<close> clause of \<^verbatim>\<open>Convert.post\<close>: the request is
  answered with status 500 and the text of the Redis exception. When the lookup fails
  no engine is run; when the store fails the artifact has been written and the request
  fails all the same.
\<close>

theorem cache_failure_answered_500:
  "fst (post redis_config (quiet_world\<lparr>redis_get_raises := Some ''Error 111 connecting to redis:6379. Connection refused.''\<rparr>)
          pdf_request initial_state)
     = Inl (HTTPException 500 ''Error 111 connecting to redis:6379. Connection refused.'')
   \<and> engine_calls (snd (post redis_config (quiet_world\<lparr>redis_get_raises := Some ''Error 111 connecting to redis:6379. Connection refused.''\<rparr>)
          pdf_request initial_state)) = []
   \<and> fst (post redis_config (quiet_world\<lparr>redis_setex_raises := Some ''Error 111 connecting to redis:6379. Connection refused.''\<rparr>)
          pdf_request initial_state)
     = Inl (HTTPException 500 ''Error 111 connecting to redis:6379. Connection refused.'')
   \<and> path_exists quiet_world CONVERTED_FOLDER ''report_1a2b3c4d.docx''
        (converted_folder (fs (snd (post redis_config (quiet_world\<lparr>redis_setex_raises := Some ''Error 111 connecting to redis:6379. Connection refused.''\<rparr>)
          pdf_request initial_state))))
   \<and> status_code (fst (post redis_config quiet_world pdf_request initial_state)) = 200"
  by (simp add: eval_defs)

section \<open>What an internal failure tells the caller\<close>

text \<open>
  C6. Two requests that fail with internal failures differing only in the exception's
  text should get the same generic body. The \<^verbatim>\<open>except\<close> clause of \<^verbatim>\<open>Convert.post\<close>
  aborts with \<^verbatim>\<open>str(e)\<close> as the message, and the handler \<^verbatim>\<open>internal_server_error\<close>
  puts \<^verbatim>\<open>str(error)\<close> into its body, so the text of the exception reaches the caller;
  only \<^verbatim>\<open>handle_unexpected_error\<close> answers with a fixed message.
\<close>

theorem exception_text_reaches_caller:
  "body_message (fst (post local_config
       (quiet_world\<lparr>pdf2docx_raises := Some ''[Errno 28] No space left on device: /tmp/converted/report_1a2b3c4d.docx''\<rparr>)
       pdf_request initial_state))
     = ''[Errno 28] No space left on device: /tmp/converted/report_1a2b3c4d.docx''
   \<and> body_message (fst (post local_config
       (quiet_world\<lparr>pdf2docx_raises := Some ''cannot open broken document''\<rparr>)
       pdf_request initial_state))
     = ''cannot open broken document''
   \<and> eb_error (fst (internal_server_error local_config (PyException ''cannot open broken document'')))
     = ''Internal error: cannot open broken document''
   \<and> handle_unexpected_error local_config (PyException ''cannot open broken document'')
     = handle_unexpected_error local_config
         (PyException ''[Errno 28] No space left on device: /tmp/converted/report_1a2b3c4d.docx'')"
  by (simp add: eval_defs internal_server_error_def handle_unexpected_error_def)

section \<open>The user count of \<^verbatim>\<open>Stats.get\<close>\<close>

lemma int_trunc_floor: "0 \<le> x \<Longrightarrow> int_trunc x = \<lfloor>x\<rfloor>"
  by (simp add: int_trunc_def)

lemma int_trunc_mono: "x \<le> y \<Longrightarrow> int_trunc x \<le> int_trunc y"
proof -
  assume xy: "x \<le> y"
  show ?thesis
  proof (cases "0 \<le> x")
    case True
    with xy show ?thesis by (simp add: int_trunc_def floor_mono)
  next
    case False
    then have neg: "int_trunc x \<le> 0"
      by (simp add: int_trunc_def)
    show ?thesis
    proof (cases "0 \<le> y")
      case True
      then have "0 \<le> int_trunc y" by (simp add: int_trunc_def)
      with neg show ?thesis by simp
    next
      case False
      with xy \<open>\<not> 0 \<le> x\<close> show ?thesis
        by (simp add: int_trunc_def floor_mono)
    qed
  qed
qed

text \<open>
  C9, as the source has it. The user count is 1250, plus the number of whole periods of
  600 seconds between the instant 1703700000 and the clock, truncated toward zero as
  Python's \<^verbatim>\<open>int()\<close> does, plus the in-memory \<^verbatim>\<open>total_conversions\<close> (after it has
  been overwritten by the Redis counter, when there is one). From the instant
  1703700000 on the truncation is the floor and the count exceeds the number of
  conversions by at least 1250; the count never decreases when the clock advances.
\<close>

theorem user_count_formula:
  "user_count (fst (stats_get cfg w s))
     = 1250 + int_trunc ((now w - 1703700000) / 600)
       + total_conversions (stats (snd (stats_get cfg w s)))
   \<and> sr_conversion_stats (fst (stats_get cfg w s)) = stats (snd (stats_get cfg w s))
   \<and> (1703700000 \<le> now w \<longrightarrow>
        user_count (fst (stats_get cfg w s))
          = 1250 + \<lfloor>(now w - 1703700000) / 600\<rfloor>
            + total_conversions (stats (snd (stats_get cfg w s)))
        \<and> total_conversions (stats (snd (stats_get cfg w s))) + 1250
          \<le> user_count (fst (stats_get cfg w s)))
   \<and> (now w \<le> t \<longrightarrow>
        user_count (fst (stats_get cfg w s)) \<le> user_count (fst (stats_get cfg (w\<lparr>now := t\<rparr>) s)))"
proof -
  have mono: "now w \<le> t \<Longrightarrow>
      int_trunc ((now w - 1703700000) / 600) \<le> int_trunc ((t - 1703700000) / 600)"
    by (rule int_trunc_mono) (simp add: divide_right_mono)
  have fl: "1703700000 \<le> now w \<Longrightarrow>
      int_trunc ((now w - 1703700000) / 600) = \<lfloor>(now w - 1703700000) / 600\<rfloor>"
    by (rule int_trunc_floor) simp
  have nonneg: "1703700000 \<le> now w \<Longrightarrow> 0 \<le> \<lfloor>(now w - 1703700000) / 600\<rfloor>"
    by simp
  show ?thesis
    using mono fl nonneg
    by (simp add: stats_get_def Let_def split: option.splits)
qed

theorem user_count_formula_witness:
  "(1703700000::real) \<le> now quiet_world
   \<and> now quiet_world \<le> now quiet_world + 600
   \<and> user_count (fst (stats_get local_config quiet_world initial_state)) = 98833
   \<and> user_count (fst (stats_get local_config (quiet_world\<lparr>now := now quiet_world + 600\<rparr>) initial_state)) = 98834"
  using user_count_formula [of local_config quiet_world initial_state "now quiet_world + 600"]
  by (simp add: stats_get_def int_trunc_def scenario_defs Let_def)

text \<open>
  With the clock one second before the instant 1703700000 the quotient is \<open>- 1 / 600\<close>:
  its floor is \<open>- 1\<close>, while \<^verbatim>\<open>int()\<close> gives \<open>0\<close>.
\<close>

theorem user_count_floor_counterexample:
  "user_count (fst (stats_get local_config (quiet_world\<lparr>now := 1703699999\<rparr>) initial_state))
     \<noteq> 1250 + \<lfloor>(now (quiet_world\<lparr>now := 1703699999\<rparr>) - 1703700000) / 600\<rfloor>
         + total_conversions (stats (snd (stats_get local_config
             (quiet_world\<lparr>now := 1703699999\<rparr>) initial_state)))"
  by (simp add: stats_get_def int_trunc_def scenario_defs Let_def)

section \<open>The engine field of the request\<close>

lemma requested_engine_default:
  "req_engine req \<notin> {Some ''standard'', Some ''high_quality''} \<Longrightarrow>
     requested_engine req = ''standard''"
  by (cases "req_engine req") (auto simp: requested_engine_def)

lemma requested_engine_standard [simp]:
  "requested_engine (req\<lparr>req_engine := Some ''standard''\<rparr>) = ''standard''"
  by (simp add: requested_engine_def)

lemma post_try_cong:
  assumes "req_file req = req_file req'" "requested_engine req = requested_engine req'"
  shows "post_try cfg w req = post_try cfg w req'"
proof -
  have "convert cfg w req f = convert cfg w req' f" for f
    using assms(2) by (simp add: convert_def)
  then show ?thesis
    using assms(1) by (simp add: post_try_def split: option.splits)
qed

text \<open>
  C10. When the form field \<^verbatim>\<open>engine\<close> is absent or holds anything but
  \<^verbatim>\<open>'standard'\<close> and \<^verbatim>\<open>'high_quality'\<close>, the request is handled exactly as the same
  request with \<^verbatim>\<open>engine='standard'\<close>: the same result (response or exception) and the
  same state afterwards, log included, so that nothing tells the caller that the value
  was replaced.
\<close>

theorem unknown_engine_handled_as_standard:
  assumes "req_engine req \<notin> {Some ''standard'', Some ''high_quality''}"
  shows "post cfg w req s = post cfg w (req\<lparr>req_engine := Some ''standard''\<rparr>) s"
proof -
  have "post_try cfg w req = post_try cfg w (req\<lparr>req_engine := Some ''standard''\<rparr>)"
    by (rule post_try_cong) (simp_all add: requested_engine_default [OF assms])
  then show ?thesis
    by (simp add: post_def)
qed

theorem unknown_engine_handled_as_standard_witness:
  "Some ''turbo'' \<notin> {Some ''standard'', Some ''high_quality''}
   \<and> post redis_config quiet_world (pdf_request\<lparr>req_engine := Some ''turbo''\<rparr>) initial_state
     = post redis_config quiet_world (pdf_request\<lparr>req_engine := Some ''standard''\<rparr>) initial_state
   \<and> post redis_config quiet_world (pdf_request\<lparr>req_engine := None\<rparr>) initial_state
     = post redis_config quiet_world (pdf_request\<lparr>req_engine := Some ''standard''\<rparr>) initial_state"
  using unknown_engine_handled_as_standard
          [of "pdf_request\<lparr>req_engine := Some ''turbo''\<rparr>" redis_config quiet_world initial_state]
        unknown_engine_handled_as_standard
          [of "pdf_request\<lparr>req_engine := None\<rparr>" redis_config quiet_world initial_state]
  by simp

section \<open>Engine fallback\<close>

text \<open>
  The handler's way to the choice of the engine, forwards: what each step returns when
  the library calls it makes return.
\<close>

lemma update_stats_returns:
  "stats_ready s e \<Longrightarrow> fst (update_stats cfg w b e x s) = Inr ()"
  by (auto simp add: stats_ready_def update_stats_def Let_def)


lemma file_save_returns:
  assumes "save_raises w = None" "upload_folder (fs s) = Some us"
  shows "fst (file_save w n s) = Inr ()"
    "upload_folder (fs (snd (file_save w n s))) = write_file n (now w) (Some us)"
  using assms by (simp_all add: file_save_def)

lemma get_file_hash_returns:
  "hash_raises w = None \<Longrightarrow> fst (get_file_hash cfg w f s) = Inr (md5_hexdigest cfg (up_content f))"
  by (simp add: get_file_hash_def)

lemma get_cached_result_returns:
  assumes "cache_available cfg \<and> redis_client cfg \<longrightarrow> redis_get_raises w = None"
  shows "fst (get_cached_result cfg w h e s) =
     Inr (if cache_available cfg \<and> redis_client cfg
          then (case redis_get (now w) (cache_key h e) (redis s) of
                  None \<Rightarrow> None
                | Some c \<Rightarrow> if c \<noteq> [] then Some c else None)
          else None)"
  using assms by (auto simp add: get_cached_result_def split: option.splits)

lemma find_filter_name:
  "find (\<lambda>e. fname e = n) (filter (\<lambda>x. fname x \<noteq> n) es) = None"
  by (induction es) auto

lemma find_snoc:
  "find P (xs @ [y]) =
     (case find P xs of None \<Rightarrow> (if P y then Some y else None) | Some x \<Rightarrow> Some x)"
  by (induction xs) auto

lemma remove_upload_after_save:
  assumes "upload_folder (fs s) = write_file n t (Some us)"
  shows "fst (remove_upload w n s) = Inr ()"
  using assms
  by (simp add: remove_upload_def os_remove_def write_file_def find_snoc find_filter_name)

lemma written_path_exists:
  assumes "plain_name n" "d \<noteq> None"
  shows "path_exists w x n (write_file n t d)"
  using assms by (auto simp add: path_exists_def write_file_def)

lemma run_pdf2docx_returns:
  "pdf2docx_raises w = None \<Longrightarrow> fst (run_pdf2docx w d s) = Inr ()"
  "converted_folder (fs (snd (run_pdf2docx w d s))) =
     (if pdf2docx_writes w then write_file d (now w) (converted_folder (fs s))
      else converted_folder (fs s))"
  by (simp_all add: run_pdf2docx_def Let_def split: option.splits)

lemma run_aspose_returns:
  "aspose_load_raises w = None \<Longrightarrow> aspose_raises w = None \<Longrightarrow> fst (run_aspose w v d s) = Inr ()"
  "aspose_load_raises w = None \<Longrightarrow>
   converted_folder (fs (snd (run_aspose w v d s))) =
     (if aspose_writes w then write_file d (now w) (converted_folder (fs s))
      else converted_folder (fs s))"
  by (simp_all add: run_aspose_def Let_def split: option.splits)

lemma select_engine_unavailable:
  assumes "engines cfg eng = Some False" "engine s = Some eng"
  shows "select_engine cfg w d s = fallback_branch cfg w d s"
  using assms by (auto simp add: select_engine_def seq_defs engines_def split: if_splits)

lemma fallback_branch_returns:
  assumes "engines cfg eng = Some False" "engines cfg alt = Some True"
    "engine_writes_output w alt"
  shows "fst (fallback_branch cfg w d s) = Inr True"
    "engine (snd (fallback_branch cfg w d s)) = Some alt"
    "converted_folder (fs (snd (fallback_branch cfg w d s))) =
       write_file d (now w) (converted_folder (fs s))"
    "upload_folder (fs (snd (fallback_branch cfg w d s))) = upload_folder (fs s)"
    "stats (snd (fallback_branch cfg w d s)) = stats s"
    "redis (snd (fallback_branch cfg w d s)) = redis s"
  using assms
  by (auto simp add: fallback_branch_def seq_defs engines_def engine_writes_output_def
        run_pdf2docx_returns run_aspose_returns split: if_splits)

lemma finish_returns:
  assumes "engine s = Some e"
    "path_exists w CONVERTED_FOLDER d (converted_folder (fs s))"
    "cache_available cfg \<and> redis_client cfg \<longrightarrow> redis_setex_raises w = None"
    "upload_folder (fs s) = write_file sf t (Some us)"
    "stats_ready s e"
  shows "fst (finish cfg w sf d h True s) =
     Inr \<lparr> success = True, message = ''Converted successfully!'', filename = d,
           engine_used = e, download_url = ''/download/'' @ d,
           processing_time = Some (elapsed w), cached = False \<rparr>"
proof -
  let ?s1 = "snd (set_cached_result cfg w h e d s)"
  have c: "fst (set_cached_result cfg w h e d s) = Inr ()"
    using assms(3) by (auto simp add: set_cached_result_def split: option.splits)
  have r: "fst (remove_upload w sf ?s1) = Inr ()"
    by (rule remove_upload_after_save [of _ _ t us]) (simp add: assms(4))
  let ?s2 = "snd (remove_upload w sf ?s1)"
  have "stats_ready ?s2 e"
    using assms(5) by (simp add: stats_ready_def)
  then have u: "fst (update_stats cfg w True e (elapsed w) ?s2) = Inr ()"
    by (rule update_stats_returns)
  show ?thesis
    using assms(1,2) c r u
    by (simp add: finish_def seq_defs)
qed

lemma cache_hit_returns:
  assumes "engine s = Some e" "stats_ready s e"
  shows "fst (cache_hit cfg w c s) =
     Inr \<lparr> success = True, message = ''Converted successfully! (from the cache)'',
           filename = c, engine_used = e, download_url = ''/download/'' @ c,
           processing_time = None, cached = True \<rparr>"
proof -
  let ?s1 = "snd (info ''Used the cached result'' s)"
  have "stats_ready ?s1 e"
    using assms(2) by (simp add: stats_ready_def)
  then have "fst (update_stats cfg w True e (elapsed w) ?s1) = Inr ()"
    by (rule update_stats_returns)
  then show ?thesis
    using assms(1) by (simp add: cache_hit_def seq_defs)
qed

lemma convert_at_lookup:
  assumes "save_raises w = None" "upload_folder (fs s) = Some us" "hash_raises w = None"
    "cache_available cfg \<and> redis_client cfg \<longrightarrow> redis_get_raises w = None"
  obtains t where
    "convert cfg w req f s =
       (case usable_entry cfg w f (requested_engine req) s of
          Some c \<Rightarrow> cache_hit cfg w c t
        | None \<Rightarrow>
            recompute cfg w (clean_filename cfg w (up_filename f))
              (md5_hexdigest cfg (up_content f)) t)"
    "engine t = Some (requested_engine req)"
    "engine_calls t = engine_calls s" "redis t = redis s" "stats t = stats s"
    "converted_folder (fs t) = converted_folder (fs s)"
    "upload_folder (fs t) = write_file (clean_filename cfg w (up_filename f)) (now w) (Some us)"
proof -
  define eng where "eng = requested_engine req"
  define sf where "sf = clean_filename cfg w (up_filename f)"
  define h where "h = md5_hexdigest cfg (up_content f)"
  define s1 where
    "s1 = snd (set_pdf_path sf (snd (info (''Starting the conversion with engine: '' @ eng)
            (snd (set_engine eng s)))))"
  define t0 where "t0 = snd (file_save w sf s1)"
  define t where "t = snd (get_cached_result cfg w h eng t0)"
  have s1: "upload_folder (fs s1) = Some us"
    using assms(2) by (simp add: s1_def)
  note sv = file_save_returns [OF assms(1) s1, of sf]
  have t0: "engine t0 = Some eng" "engine_calls t0 = engine_calls s" "redis t0 = redis s"
      "stats t0 = stats s" "converted_folder (fs t0) = converted_folder (fs s)"
      "upload_folder (fs t0) = write_file sf (now w) (Some us)"
    using sv(2) by (simp_all add: t0_def s1_def)
  have t: "engine t = Some eng" "engine_calls t = engine_calls s" "redis t = redis s"
      "stats t = stats s" "converted_folder (fs t) = converted_folder (fs s)"
      "upload_folder (fs t) = write_file sf (now w) (Some us)"
    using t0 by (simp_all add: t_def)
  have unfold: "convert cfg w req f s =
      (case fst (file_save w sf s1) of
         Inl e \<Rightarrow> (Inl e, t0)
       | Inr _ \<Rightarrow>
           (case fst (get_file_hash cfg w f t0) of
              Inl e \<Rightarrow> (Inl e, t0)
            | Inr h' \<Rightarrow>
                (case fst (get_cached_result cfg w h' eng t0) of
                   Inl e \<Rightarrow> (Inl e, snd (get_cached_result cfg w h' eng t0))
                 | Inr cr \<Rightarrow> after_lookup cfg w sf h' cr (snd (get_cached_result cfg w h' eng t0)))))"
    unfolding convert_def eng_def [symmetric] sf_def [symmetric] Let_def
    by (simp add: seq_defs t0_def s1_def split: sum.splits)
  have "convert cfg w req f s =
      after_lookup cfg w sf h
        (if cache_available cfg \<and> redis_client cfg
          then (case redis_get (now w) (cache_key h eng) (redis t0) of
                  None \<Rightarrow> None
                | Some c \<Rightarrow> if c \<noteq> [] then Some c else None)
          else None) t"
    unfolding unfold
    by (simp add: sv(1) get_file_hash_returns [OF assms(3)] get_cached_result_returns [OF assms(4)]
          h_def t_def)
  then have eq: "convert cfg w req f s =
       (case usable_entry cfg w f eng s of
          Some c \<Rightarrow> cache_hit cfg w c t
        | None \<Rightarrow> recompute cfg w sf h t)"
    using t0(3) t(5)
    by (auto simp add: after_lookup_def usable_entry_def h_def split: option.splits)
  from eq t show thesis
    unfolding eng_def sf_def h_def by (rule that)
qed

lemma recompute_fallback_calls:
  assumes "engines cfg eng = Some False" "engines cfg alt = Some True" "engine s = Some eng"
  shows "engine_calls (snd (recompute cfg w sf h s)) = engine_calls s @ [alt]"
proof -
  let ?d = "rsplit_head sf @ ''.docx''"
  have "engine_calls (snd (recompute cfg w sf h s)) = engine_calls (snd (select_engine cfg w ?d s))"
    by (simp add: recompute_def Let_def seq_defs finish_sum split: sum.splits)
  also have "\<dots> = engine_calls (snd (fallback_branch cfg w ?d s))"
    by (simp add: select_engine_unavailable [OF assms(1,3)])
  also have "\<dots> = engine_calls s @ [alt]"
    using assms(1,2) by (auto simp add: fallback_branch_sum engines_def split: if_splits)
  finally show ?thesis .
qed

lemma recompute_fallback_returns:
  assumes "engines cfg eng = Some False" "engines cfg alt = Some True" "engine s = Some eng"
    "engine_writes_output w alt" "converted_folder (fs s) \<noteq> None"
    "plain_name (rsplit_head sf @ ''.docx'')"
    "cache_available cfg \<and> redis_client cfg \<longrightarrow> redis_setex_raises w = None"
    "upload_folder (fs s) = write_file sf t (Some us)"
    "stats_ready s alt"
  shows "fst (recompute cfg w sf h s) =
     Inr \<lparr> success = True, message = ''Converted successfully!'',
           filename = rsplit_head sf @ ''.docx'',
           engine_used = alt, download_url = ''/download/'' @ rsplit_head sf @ ''.docx'',
           processing_time = Some (elapsed w), cached = False \<rparr>"
proof -
  let ?d = "rsplit_head sf @ ''.docx''"
  let ?s = "snd (fallback_branch cfg w ?d s)"
  note fb = fallback_branch_returns [OF assms(1,2,4), where d = ?d and s = s]
  have "path_exists w CONVERTED_FOLDER ?d (converted_folder (fs ?s))"
    unfolding fb(3) using assms(6,5) by (rule written_path_exists)
  moreover have "upload_folder (fs ?s) = write_file sf t (Some us)"
    using fb(4) assms(8) by simp
  moreover have "stats_ready ?s alt"
    using assms(9) fb(5) by (simp add: stats_ready_def)
  ultimately have "fst (finish cfg w sf ?d h True ?s) = Inr \<lparr> success = True, message = ''Converted successfully!'',
           filename = ?d, engine_used = alt, download_url = ''/download/'' @ ?d,
           processing_time = Some (elapsed w), cached = False \<rparr>"
    using fb(2) assms(7) by (intro finish_returns) auto
  then show ?thesis
    using fb(1)
    by (simp add: recompute_def Let_def seq_defs select_engine_unavailable [OF assms(1,3)])
qed

lemma usable_entry_enter [simp]:
  "usable_entry cfg w f eng (enter s) = usable_entry cfg w f eng s"
  by (simp add: usable_entry_def cong: option.case_cong)

lemma stats_ready_cong:
  "stats t = stats s \<Longrightarrow> stats_ready t e = stats_ready s e"
  by (simp add: stats_ready_def)

lemma post_valid:
  assumes "req_file req = Some f" "up_filename f \<noteq> []" "allowed_file (up_filename f)"
  shows "post_try cfg w req s = convert cfg w req f s"
  using assms by (simp add: post_try_def)

lemma post_lookup:
  assumes "req_file req = Some f" "lookup_ready cfg w f s"
  obtains t where
    "post_try cfg w req (enter s) =
       (case usable_entry cfg w f (requested_engine req) s of
          Some c \<Rightarrow> cache_hit cfg w c t
        | None \<Rightarrow>
            recompute cfg w (clean_filename cfg w (up_filename f))
              (md5_hexdigest cfg (up_content f)) t)"
    "engine t = Some (requested_engine req)"
    "engine_calls t = engine_calls s" "redis t = redis s" "stats t = stats s"
    "converted_folder (fs t) = converted_folder (fs s)"
    "\<exists>us. upload_folder (fs t) = write_file (clean_filename cfg w (up_filename f)) (now w) (Some us)"
proof -
  from assms(2) obtain us where us: "upload_folder (fs (enter s)) = Some us"
    by (auto simp add: lookup_ready_def)
  from assms(2) have ok: "save_raises w = None" "hash_raises w = None"
      "cache_available cfg \<and> redis_client cfg \<longrightarrow> redis_get_raises w = None"
      "up_filename f \<noteq> []" "allowed_file (up_filename f)"
    by (simp_all add: lookup_ready_def)
  obtain t where t:
    "convert cfg w req f (enter s) =
       (case usable_entry cfg w f (requested_engine req) (enter s) of
          Some c \<Rightarrow> cache_hit cfg w c t
        | None \<Rightarrow>
            recompute cfg w (clean_filename cfg w (up_filename f))
              (md5_hexdigest cfg (up_content f)) t)"
    "engine t = Some (requested_engine req)"
    "engine_calls t = engine_calls (enter s)" "redis t = redis (enter s)" "stats t = stats (enter s)"
    "converted_folder (fs t) = converted_folder (fs (enter s))"
    "upload_folder (fs t) = write_file (clean_filename cfg w (up_filename f)) (now w) (Some us)"
    by (rule convert_at_lookup [OF ok(1) us ok(2,3)])
  show thesis
    using t by (intro that [of t]) (auto simp add: post_valid [OF assms(1) ok(4,5)])
qed

text \<open>
  C4, as the source has it. The cached result is looked up under the requested engine
  before an engine is chosen. When the requested engine is not available and the other
  one is, the only engine a request can call is the available one, and a request
  stores a result only under the engine it has called. A request that reaches the
  lookup and finds no usable entry under the requested engine calls the available
  engine; when that engine has written its output and the cache and the statistics
  take the result, the request answers with the output file and names the available
  engine in \<^verbatim>\<open>engine_used\<close>, not the requested one. A request that finds a usable
  entry under the requested engine runs no engine: it answers with the cached file and
  names the requested engine in \<^verbatim>\<open>engine_used\<close>. Availability is read as
  \<^verbatim>\<open>ApiIndex.get\<close> reports it.
\<close>

theorem fallback_engine_runs_and_is_reported:
  assumes "engines cfg (requested_engine req) = Some False" "engines cfg alt = Some True"
  shows "(engine_calls (snd (post cfg w req s)) = engine_calls s
          \<or> engine_calls (snd (post cfg w req s)) = engine_calls s @ [alt])
       \<and> (\<forall>resp. fst (post cfg w req s) = Inr resp \<longrightarrow>
            (if cached resp
             then engine_calls (snd (post cfg w req s)) = engine_calls s
                  \<and> engine_used resp = requested_engine req
                  \<and> (\<exists>f. req_file req = Some f
                        \<and> usable_entry cfg w f (requested_engine req) s = Some (filename resp))
             else engine_calls (snd (post cfg w req s)) = engine_calls s @ [alt]
                  \<and> engine_used resp = alt))
       \<and> (kv (redis (snd (post cfg w req s))) = kv (redis s)
          \<or> (\<exists>f. req_file req = Some f
                \<and> engine_calls (snd (post cfg w req s)) = engine_calls s @ [alt]
                \<and> kv (redis (snd (post cfg w req s)))
                    = (kv (redis s))(cache_key (md5_hexdigest cfg (up_content f)) alt
                         \<mapsto> (docx_name cfg w f, now w + 3600))))
       \<and> (\<forall>f. req_file req = Some f \<and> lookup_ready cfg w f s \<longrightarrow>
            (case usable_entry cfg w f (requested_engine req) s of
               None \<Rightarrow>
                 engine_calls (snd (post cfg w req s)) = engine_calls s @ [alt]
                 \<and> (engine_writes_output w alt \<and> converted_folder (fs s) \<noteq> None
                      \<and> plain_name (docx_name cfg w f)
                      \<and> (cache_available cfg \<and> redis_client cfg \<longrightarrow> redis_setex_raises w = None)
                      \<and> stats_ready s alt \<longrightarrow>
                    fst (post cfg w req s) =
                      Inr \<lparr> success = True, message = ''Converted successfully!'',
                            filename = docx_name cfg w f, engine_used = alt,
                            download_url = ''/download/'' @ docx_name cfg w f,
                            processing_time = Some (elapsed w), cached = False \<rparr>)
             | Some c \<Rightarrow>
                 engine_calls (snd (post cfg w req s)) = engine_calls s
                 \<and> (stats_ready s (requested_engine req) \<longrightarrow>
                    fst (post cfg w req s) =
                      Inr \<lparr> success = True, message = ''Converted successfully! (from the cache)'',
                            filename = c, engine_used = requested_engine req,
                            download_url = ''/download/'' @ c,
                            processing_time = None, cached = True \<rparr>)))"
proof -
  note ch = chosen_engine_fallback [OF assms]
  have calls: "engine_calls (snd (post cfg w req s)) = engine_calls s
          \<or> engine_calls (snd (post cfg w req s)) = engine_calls s @ [alt]"
  proof (cases rule: post_try_cases [of cfg w req "enter s"])
    case invalid
    then show ?thesis by (simp add: post_calls)
  next
    case (valid f)
    with convert_calls [of cfg w req f "enter s"] ch show ?thesis
      by (auto simp add: post_calls)
  qed
  have rets: "if cached resp
             then engine_calls (snd (post cfg w req s)) = engine_calls s
                  \<and> engine_used resp = requested_engine req
                  \<and> (\<exists>f. req_file req = Some f
                        \<and> usable_entry cfg w f (requested_engine req) s = Some (filename resp))
             else engine_calls (snd (post cfg w req s)) = engine_calls s @ [alt]
                  \<and> engine_used resp = alt"
    if "fst (post cfg w req s) = Inr resp" for resp
  proof -
    from that obtain f where f: "req_file req = Some f"
      "fst (convert cfg w req f (enter s)) = Inr resp"
      "snd (post cfg w req s) = leave (snd (convert cfg w req f (enter s)))"
      by (rule post_returns)
    from convert_returns [OF f(2)] ch f(1) show ?thesis
      by (auto simp add: f(3) usable_entry_def redis_get_def split: if_splits)
  qed
  have writes: "kv (redis (snd (post cfg w req s))) = kv (redis s)
          \<or> (\<exists>f. req_file req = Some f
                \<and> engine_calls (snd (post cfg w req s)) = engine_calls s @ [alt]
                \<and> kv (redis (snd (post cfg w req s)))
                    = (kv (redis s))(cache_key (md5_hexdigest cfg (up_content f)) alt
                         \<mapsto> (docx_name cfg w f, now w + 3600)))"
    using post_kv [of cfg w req s] ch by auto
  have progress: "case usable_entry cfg w f (requested_engine req) s of
               None \<Rightarrow>
                 engine_calls (snd (post cfg w req s)) = engine_calls s @ [alt]
                 \<and> (engine_writes_output w alt \<and> converted_folder (fs s) \<noteq> None
                      \<and> plain_name (docx_name cfg w f)
                      \<and> (cache_available cfg \<and> redis_client cfg \<longrightarrow> redis_setex_raises w = None)
                      \<and> stats_ready s alt \<longrightarrow>
                    fst (post cfg w req s) =
                      Inr \<lparr> success = True, message = ''Converted successfully!'',
                            filename = docx_name cfg w f, engine_used = alt,
                            download_url = ''/download/'' @ docx_name cfg w f,
                            processing_time = Some (elapsed w), cached = False \<rparr>)
             | Some c \<Rightarrow>
                 engine_calls (snd (post cfg w req s)) = engine_calls s
                 \<and> (stats_ready s (requested_engine req) \<longrightarrow>
                    fst (post cfg w req s) =
                      Inr \<lparr> success = True, message = ''Converted successfully! (from the cache)'',
                            filename = c, engine_used = requested_engine req,
                            download_url = ''/download/'' @ c,
                            processing_time = None, cached = True \<rparr>)"
    if f: "req_file req = Some f" "lookup_ready cfg w f s" for f
  proof -
    from f obtain t where t:
      "post_try cfg w req (enter s) =
         (case usable_entry cfg w f (requested_engine req) s of
            Some c \<Rightarrow> cache_hit cfg w c t
          | None \<Rightarrow>
              recompute cfg w (clean_filename cfg w (up_filename f))
                (md5_hexdigest cfg (up_content f)) t)"
      "engine t = Some (requested_engine req)"
      "engine_calls t = engine_calls s" "redis t = redis s" "stats t = stats s"
      "converted_folder (fs t) = converted_folder (fs s)"
      "\<exists>us. upload_folder (fs t) = write_file (clean_filename cfg w (up_filename f)) (now w) (Some us)"
      by (rule post_lookup)
    from t(7) obtain us where
      us: "upload_folder (fs t) = write_file (clean_filename cfg w (up_filename f)) (now w) (Some us)"
      by blast
    show ?thesis
    proof (cases "usable_entry cfg w f (requested_engine req) s")
      case None
      let ?sf = "clean_filename cfg w (up_filename f)"
      let ?r = "recompute cfg w ?sf (md5_hexdigest cfg (up_content f)) t"
      have pt: "post_try cfg w req (enter s) = ?r"
        using t(1) None by simp
      have c: "engine_calls (snd (post cfg w req s)) = engine_calls s @ [alt]"
        using recompute_fallback_calls [OF assms t(2), of w ?sf "md5_hexdigest cfg (up_content f)"]
        by (simp add: post_calls pt t(3))
      have r: "fst (post cfg w req s) =
                      Inr \<lparr> success = True, message = ''Converted successfully!'',
                            filename = docx_name cfg w f, engine_used = alt,
                            download_url = ''/download/'' @ docx_name cfg w f,
                            processing_time = Some (elapsed w), cached = False \<rparr>"
        if ok: "engine_writes_output w alt" "converted_folder (fs s) \<noteq> None"
          "plain_name (docx_name cfg w f)"
          "cache_available cfg \<and> redis_client cfg \<longrightarrow> redis_setex_raises w = None"
          "stats_ready s alt"
      proof -
        have "fst ?r = Inr \<lparr> success = True, message = ''Converted successfully!'',
             filename = rsplit_head ?sf @ ''.docx'',
             engine_used = alt, download_url = ''/download/'' @ rsplit_head ?sf @ ''.docx'',
             processing_time = Some (elapsed w), cached = False \<rparr>"
          using ok t(5,6)
          by (intro recompute_fallback_returns [OF assms t(2) _ _ _ _ us])
             (simp_all add: docx_name_def stats_ready_def)
        then show ?thesis
          by (simp add: post_fst_snd pt docx_name_def)
      qed
      from c r None show ?thesis by simp
    next
      case (Some c)
      have pt: "post_try cfg w req (enter s) = cache_hit cfg w c t"
        using t(1) Some by simp
      have c: "engine_calls (snd (post cfg w req s)) = engine_calls s"
        by (simp add: post_calls pt cache_hit_sum t(3))
      have r: "fst (post cfg w req s) =
                      Inr \<lparr> success = True, message = ''Converted successfully! (from the cache)'',
                            filename = c, engine_used = requested_engine req,
                            download_url = ''/download/'' @ c,
                            processing_time = None, cached = True \<rparr>"
        if "stats_ready s (requested_engine req)"
      proof -
        from that t(5) have "stats_ready t (requested_engine req)"
          by (simp add: stats_ready_def)
        from cache_hit_returns [OF t(2) this, of cfg w c] show ?thesis
          by (simp add: post_fst_snd pt)
      qed
      from c r Some show ?thesis by simp
    qed
  qed
  from calls rets writes progress show ?thesis by blast
qed

text \<open>
  Both directions of the fallback on a fresh state: the high-quality engine requested
  where only pdf2docx is available, and the standard engine requested where only
  Aspose is.
\<close>

theorem fallback_engine_runs_and_is_reported_witness:
  "engines local_config (requested_engine high_quality_request) = Some False
   \<and> engines local_config ''standard'' = Some True
   \<and> req_file high_quality_request = Some \<lparr> up_filename = ''report.pdf'', up_content = ''%PDF-1.4'' \<rparr>
   \<and> lookup_ready local_config quiet_world
        \<lparr> up_filename = ''report.pdf'', up_content = ''%PDF-1.4'' \<rparr> initial_state
   \<and> usable_entry local_config quiet_world \<lparr> up_filename = ''report.pdf'', up_content = ''%PDF-1.4'' \<rparr>
        (requested_engine high_quality_request) initial_state = None
   \<and> engine_writes_output quiet_world ''standard''
   \<and> docx_name local_config quiet_world \<lparr> up_filename = ''report.pdf'', up_content = ''%PDF-1.4'' \<rparr>
        = ''report_1a2b3c4d.docx''
   \<and> plain_name ''report_1a2b3c4d.docx''
   \<and> stats_ready initial_state ''standard''
   \<and> engine_calls (snd (post local_config quiet_world high_quality_request initial_state))
        = [''standard'']
   \<and> fst (post local_config quiet_world high_quality_request initial_state)
        = Inr \<lparr> success = True, message = ''Converted successfully!'',
                filename = ''report_1a2b3c4d.docx'', engine_used = ''standard'',
                download_url = ''/download/report_1a2b3c4d.docx'',
                processing_time = Some 2, cached = False \<rparr>
   \<and> engines aspose_only_config (requested_engine pdf_request) = Some False
   \<and> engines aspose_only_config ''high_quality'' = Some True
   \<and> engine_writes_output quiet_world ''high_quality''
   \<and> stats_ready initial_state ''high_quality''
   \<and> engine_calls (snd (post aspose_only_config quiet_world pdf_request initial_state))
        = [''high_quality'']
   \<and> fst (post aspose_only_config quiet_world pdf_request initial_state)
        = Inr \<lparr> success = True, message = ''Converted successfully!'',
                filename = ''report_1a2b3c4d.docx'', engine_used = ''high_quality'',
                download_url = ''/download/report_1a2b3c4d.docx'',
                processing_time = Some 2, cached = False \<rparr>"
  using fallback_engine_runs_and_is_reported
          [of local_config high_quality_request "''standard''" quiet_world initial_state]
        fallback_engine_runs_and_is_reported
          [of aspose_only_config pdf_request "''high_quality''" quiet_world initial_state]
  by (simp add: eval_defs engines_def high_quality_request_def aspose_only_config_def
        lookup_ready_def usable_entry_def engine_writes_output_def stats_ready_def docx_name_def)

text \<open>
  Where only pdf2docx is available and the cache holds a live entry, stored under the
  high-quality engine, whose artifact exists, a request for the high-quality engine is
  answered from the cache: no engine runs, and \<^verbatim>\<open>engine_used\<close> names the requested
  engine.
\<close>

theorem fallback_cached_counterexample:
  "engines pdf2docx_only_config (requested_engine high_quality_request) = Some False
   \<and> engines pdf2docx_only_config ''standard'' = Some True
   \<and> fst (post pdf2docx_only_config quiet_world high_quality_request high_quality_cached_state)
        = Inr \<lparr> success = True, message = ''Converted successfully! (from the cache)'',
                filename = ''report_1a2b3c4d.docx'', engine_used = ''high_quality'',
                download_url = ''/download/report_1a2b3c4d.docx'',
                processing_time = None, cached = True \<rparr>
   \<and> engine_calls (snd (post pdf2docx_only_config quiet_world high_quality_request
                           high_quality_cached_state)) = []"
  by (simp add: eval_defs engines_def high_quality_request_def pdf2docx_only_config_def
        high_quality_cached_state_def)

section \<open>Cache hits\<close>










section \<open>One turn of the sweeper\<close>

lemmas sweep_defs = sweep_cycle_def sweep_folder_def get_folder_def set_folder_def
  expired_def fromtimestamp_def round_half_even_def timedelta_hours_def
  FILE_RETENTION_HOURS_def stuck_def swept_def deletion_log_def failure_log_def
  first_failure_def os_remove_def str_exn_def

lemma find_by_name:
  "distinct (map fname cur) \<Longrightarrow> e \<in> set cur \<Longrightarrow> find (\<lambda>x. fname x = fname e) cur = Some e"
  by (induction cur) (auto simp: image_iff)

lemma filter_by_name:
  "distinct (map fname cur) \<Longrightarrow> e \<in> set cur \<Longrightarrow>
     filter (\<lambda>x. fname x \<noteq> fname e) cur = filter (\<lambda>x. x \<noteq> e) cur"
  by (rule filter_cong) (auto simp: distinct_map inj_on_def)

lemma os_remove_listed:
  "distinct (map fname cur) \<Longrightarrow> e \<in> set cur \<Longrightarrow>
     os_remove (fname e) (Some cur) =
       (case remove_raises e of
          None \<Rightarrow> Inr (Some (filter (\<lambda>x. x \<noteq> e) cur))
        | Some text \<Rightarrow> Inl text)"
  by (simp add: os_remove_def find_by_name filter_by_name split: option.splits)

lemma get_set_folder [simp]:
  "get_folder d (set_folder d x f) = x"
  "d' \<noteq> d \<Longrightarrow> get_folder d' (set_folder d x f) = get_folder d' f"
  by (cases d; cases d'; simp add: get_folder_def set_folder_def)+

lemma swept_Cons:
  "swept cfg t (e # es) =
     (if stuck cfg t e then []
      else if is_file e \<and> expired cfg t e then e # swept cfg t es else swept cfg t es)"
  by (simp add: swept_def)

lemma first_failure_Cons:
  "first_failure cfg t (e # es) =
     (if stuck cfg t e then remove_raises e else first_failure cfg t es)"
  by (simp add: first_failure_def)

lemma first_failure_Nil [simp]: "first_failure cfg t [] = None"
  by (simp add: first_failure_def)

lemma stuck_iff:
  "stuck cfg t e = (is_file e \<and> expired cfg t e \<and> (\<exists>text. remove_raises e = Some text))"
  by (auto simp add: stuck_def)

lemma sweep_files_step:
  assumes "get_folder d (fs s) = Some cur" "distinct (map fname cur)" "e \<in> set cur"
  shows "sweep_files cfg t d (e # es) s =
     (if is_file e \<and> expired cfg t e
      then (case remove_raises e of
              Some text \<Rightarrow> (Inl (PyException text), s)
            | None \<Rightarrow>
                sweep_files cfg t d es
                  (s\<lparr>fs := set_folder d (Some (filter (\<lambda>x. x \<noteq> e) cur)) (fs s),
                     logged := logged s @ [(INFO, ''Deleted: '' @ fname e)]\<rparr>))
      else sweep_files cfg t d es s)"
  using assms by (auto simp add: os_remove_listed split: option.splits)

lemma sweep_files_folder:
  "get_folder d (fs s) = Some cur \<Longrightarrow> distinct (map fname cur) \<Longrightarrow> distinct es \<Longrightarrow>
     set es \<subseteq> set cur \<Longrightarrow>
     get_folder d (fs (snd (sweep_files cfg t d es s))) =
       Some (filter (\<lambda>x. x \<notin> set (swept cfg t es)) cur)
     \<and> fst (sweep_files cfg t d es s) =
       (case first_failure cfg t es of None \<Rightarrow> Inr () | Some text \<Rightarrow> Inl (PyException text))
     \<and> logged (snd (sweep_files cfg t d es s)) = logged s @ deletion_log cfg t es"
proof (induction es arbitrary: s cur)
  case Nil
  then show ?case by (simp add: swept_def deletion_log_def)
next
  case (Cons e es)
  then have e: "e \<in> set cur" by simp
  note step = sweep_files_step [OF Cons.prems(1,2) e, of cfg t es]
  show ?case
  proof (cases "is_file e \<and> expired cfg t e")
    case False
    then have no: "(is_file e \<and> expired cfg t e) = False" "stuck cfg t e = False"
      by (auto simp add: stuck_def)
    from Cons.IH [of s cur] Cons.prems show ?thesis
      unfolding step swept_Cons first_failure_Cons deletion_log_def no by simp
  next
    case True
    then have yes: "(is_file e \<and> expired cfg t e) = True" by simp
    show ?thesis
    proof (cases "remove_raises e")
      case (Some msg)
      with True have st: "stuck cfg t e = True" by (simp add: stuck_def)
      from Some Cons.prems show ?thesis
        unfolding step swept_Cons first_failure_Cons deletion_log_def yes st by simp
    next
      case None
      with True have st: "stuck cfg t e = False" by (simp add: stuck_def)
      let ?cur = "filter (\<lambda>x. x \<noteq> e) cur"
      let ?s = "s\<lparr>fs := set_folder d (Some ?cur) (fs s),
                   logged := logged s @ [(INFO, ''Deleted: '' @ fname e)]\<rparr>"
      have "get_folder d (fs ?s) = Some ?cur" "distinct (map fname ?cur)" "distinct es"
          "set es \<subseteq> set ?cur"
        using Cons.prems by (auto simp add: distinct_map_filter)
      from Cons.IH [OF this]
      have ih: "get_folder d (fs (snd (sweep_files cfg t d es ?s))) =
            Some (filter (\<lambda>x. x \<notin> set (swept cfg t es)) ?cur)"
          "fst (sweep_files cfg t d es ?s) =
            (case first_failure cfg t es of None \<Rightarrow> Inr () | Some text \<Rightarrow> Inl (PyException text))"
          "logged (snd (sweep_files cfg t d es ?s)) = logged ?s @ deletion_log cfg t es"
        by simp_all
      have "filter (\<lambda>x. x \<notin> set (swept cfg t es)) ?cur
            = filter (\<lambda>x. x \<notin> set (e # swept cfg t es)) cur"
        by (auto intro: filter_cong)
      then show ?thesis
        using ih None unfolding step swept_Cons first_failure_Cons deletion_log_def yes st
        by simp
    qed
  qed
qed

lemma sweep_files_other:
  "d' \<noteq> d \<Longrightarrow> get_folder d' (fs (snd (sweep_files cfg t d es s))) = get_folder d' (fs s)"
  by (induction es arbitrary: s) (auto split: sum.splits)

lemma swept_all:
  "first_failure cfg t es = None \<Longrightarrow>
     swept cfg t es = filter (\<lambda>e. is_file e \<and> expired cfg t e) es"
  by (induction es) (auto simp add: swept_Cons first_failure_Cons stuck_def swept_def split: if_splits)

lemma kept_after_failure:
  "distinct es \<Longrightarrow>
     set (dropWhile (\<lambda>e. \<not> stuck cfg t e) es) \<subseteq> set (filter (\<lambda>x. x \<notin> set (swept cfg t es)) es)"
proof -
  assume d: "distinct es"
  have "set (takeWhile (\<lambda>e. \<not> stuck cfg t e) es) \<inter> set (dropWhile (\<lambda>e. \<not> stuck cfg t e) es) = {}"
    using d by (metis distinct_append takeWhile_dropWhile_id)
  moreover have "set (dropWhile (\<lambda>e. \<not> stuck cfg t e) es) \<subseteq> set es"
    by (rule set_dropWhileD [THEN subsetI]) 
  ultimately show ?thesis
    by (auto simp add: swept_def)
qed

lemma sweep_cycle_returns: "fst (sweep_cycle cfg t s) = Inr ()"
  by (simp add: sweep_cycle_def py_try_fst_snd error_def split: sum.splits)

lemma delete_old_files_returns: "fst (delete_old_files cfg n clock s) = Inr ()"
  by (induction n arbitrary: clock s)
     (simp_all add: py_return_def py_then_def py_bind_fst_snd sweep_cycle_returns)

text \<open>
  The age of a file is a difference of two naive wall-clock times at the resolution of
  a microsecond: a modification time less than half a microsecond more than one hour
  back is rounded to one hour back, and the file is kept; and a change of the offset
  of the time zone between the modification and the turn enters the age.
\<close>

lemma expired_rounds_to_microseconds:
  "\<not> expired local_config sweep_time
       \<lparr> fname = ''edge.docx'', mtime = 17622463999999996 / 10000000, is_file = True,
         remove_raises = None \<rparr>
   \<and> expired local_config sweep_time
       \<lparr> fname = ''edge.docx'', mtime = 17622463999999994 / 10000000, is_file = True,
         remove_raises = None \<rparr>
   \<and> expired (local_config\<lparr>utc_offset := (\<lambda>t. if t < 1762248000 then 7200 else 10800)\<rparr>)
        (sweep_time + 10800000000)
       \<lparr> fname = ''fresh.docx'', mtime = 1762247000, is_file = True, remove_raises = None \<rparr>
   \<and> \<not> expired (local_config\<lparr>utc_offset := (\<lambda>t. 7200)\<rparr>) (sweep_time + 7200000000)
       \<lparr> fname = ''fresh.docx'', mtime = 1762247000, is_file = True, remove_raises = None \<rparr>"
  by (simp add: sweep_defs local_config_def sweep_time_def Let_def)

text \<open>
  C7, as the source has it. The \<^verbatim>\<open>try\<close> of \<^verbatim>\<open>delete_old_files\<close> encloses the loops
  over both folders, so a failure to delete one file ends the turn: the exception is
  caught and logged, the turn returns, and the loop goes on with the next turn, on the
  state this one has left. The expired files listed before the first failure are
  deleted and logged; the failing file and the files listed after it are left in
  place, and so is the whole converted folder when the failure is in the upload
  folder. When no deletion fails, every listed regular file that the test of the
  source finds expired is deleted. Names within a folder are distinct, as in any
  directory listing.
\<close>

theorem sweep_cycle_ends_at_first_failure:
  assumes "upload_folder (fs s) = Some us" "converted_folder (fs s) = Some cs"
    and "distinct (map fname us)" "distinct (map fname cs)"
  shows "fst (sweep_cycle cfg t s) = Inr ()
       \<and> upload_folder (fs (snd (sweep_cycle cfg t s))) =
           Some (filter (\<lambda>x. x \<notin> set (swept cfg t us)) us)
       \<and> converted_folder (fs (snd (sweep_cycle cfg t s))) =
           Some (if first_failure cfg t us = None
                 then filter (\<lambda>x. x \<notin> set (swept cfg t cs)) cs else cs)
       \<and> logged (snd (sweep_cycle cfg t s)) =
           logged s @ deletion_log cfg t us @
             (if first_failure cfg t us = None
              then deletion_log cfg t cs @ failure_log cfg t cs
              else failure_log cfg t us)
       \<and> set (dropWhile (\<lambda>e. \<not> stuck cfg t e) us)
           \<subseteq> set (filter (\<lambda>x. x \<notin> set (swept cfg t us)) us)
       \<and> set (dropWhile (\<lambda>e. \<not> stuck cfg t e) cs)
           \<subseteq> set (filter (\<lambda>x. x \<notin> set (swept cfg t cs)) cs)
       \<and> (first_failure cfg t us = None \<longrightarrow>
            swept cfg t us = filter (\<lambda>e. is_file e \<and> expired cfg t e) us)
       \<and> (first_failure cfg t cs = None \<longrightarrow>
            swept cfg t cs = filter (\<lambda>e. is_file e \<and> expired cfg t e) cs)
       \<and> fst (delete_old_files cfg n clock s) = Inr ()
       \<and> delete_old_files cfg (Suc n) clock s =
           delete_old_files cfg n (\<lambda>i. clock (Suc i)) (snd (sweep_cycle cfg (clock 0) s))"
proof -
  let ?r1 = "sweep_files cfg t UPLOAD_FOLDER us s"
  have du: "distinct us" and dc: "distinct cs"
    using assms(3,4) by (simp_all add: distinct_map)
  have g: "get_folder UPLOAD_FOLDER (fs s) = Some us" "get_folder CONVERTED_FOLDER (fs s) = Some cs"
    using assms(1,2) by (simp_all add: get_folder_def)
  from sweep_files_folder [OF g(1) assms(3) du, of cfg t]
  have r1: "get_folder UPLOAD_FOLDER (fs (snd ?r1)) = Some (filter (\<lambda>x. x \<notin> set (swept cfg t us)) us)"
       "fst ?r1 = (case first_failure cfg t us of None \<Rightarrow> Inr () | Some msg \<Rightarrow> Inl (PyException msg))"
       "logged (snd ?r1) = logged s @ deletion_log cfg t us"
    by simp_all
  have r1c: "get_folder CONVERTED_FOLDER (fs (snd ?r1)) = Some cs"
    using g(2) by (simp add: sweep_files_other)
  let ?r2 = "sweep_files cfg t CONVERTED_FOLDER cs (snd ?r1)"
  from sweep_files_folder [OF r1c assms(4) dc, of cfg t]
  have r2: "get_folder CONVERTED_FOLDER (fs (snd ?r2)) = Some (filter (\<lambda>x. x \<notin> set (swept cfg t cs)) cs)"
       "fst ?r2 = (case first_failure cfg t cs of None \<Rightarrow> Inr () | Some msg \<Rightarrow> Inl (PyException msg))"
       "logged (snd ?r2) = logged (snd ?r1) @ deletion_log cfg t cs"
    by simp_all
  have r2u: "get_folder UPLOAD_FOLDER (fs (snd ?r2)) = Some (filter (\<lambda>x. x \<notin> set (swept cfg t us)) us)"
    using r1(1) by (simp add: sweep_files_other)
  have unfold: "sweep_cycle cfg t s =
      (case fst ?r1 of
         Inl e \<Rightarrow> error (''Deletion error: '' @ str_exn cfg e) (snd ?r1)
       | Inr _ \<Rightarrow>
           (case fst ?r2 of
              Inl e \<Rightarrow> error (''Deletion error: '' @ str_exn cfg e) (snd ?r2)
            | Inr _ \<Rightarrow> (Inr (), snd ?r2)))"
    using g r1c
    by (simp add: sweep_cycle_def sweep_folder_def py_then_def py_bind_fst_snd py_try_fst_snd
          split: sum.splits)
  have fl: "failure_log cfg t es =
      (case first_failure cfg t es of None \<Rightarrow> [] | Some msg \<Rightarrow> [(ERROR, ''Deletion error: '' @ msg)])"
    for es
    by (simp add: failure_log_def first_failure_def split: option.splits)
  have folders: "upload_folder (fs (snd (sweep_cycle cfg t s))) =
           Some (filter (\<lambda>x. x \<notin> set (swept cfg t us)) us)"
      "converted_folder (fs (snd (sweep_cycle cfg t s))) =
           Some (if first_failure cfg t us = None
                 then filter (\<lambda>x. x \<notin> set (swept cfg t cs)) cs else cs)"
    using r1 r1c r2 r2u
    by (auto simp add: unfold get_folder_def error_def split: sum.splits option.splits)
  have log: "logged (snd (sweep_cycle cfg t s)) =
           logged s @ deletion_log cfg t us @
             (if first_failure cfg t us = None
              then deletion_log cfg t cs @ failure_log cfg t cs
              else failure_log cfg t us)"
    using r1 r2
    by (auto simp add: unfold fl error_def str_exn_def split: sum.splits option.splits)
  have next_turn: "delete_old_files cfg (Suc n) clock s =
      delete_old_files cfg n (\<lambda>i. clock (Suc i)) (snd (sweep_cycle cfg (clock 0) s))"
    by (simp add: py_then_def py_bind_fst_snd sweep_cycle_returns)
  show ?thesis
    using folders log next_turn kept_after_failure [OF du] kept_after_failure [OF dc]
    by (simp add: sweep_cycle_returns delete_old_files_returns swept_all)
qed

text \<open>
  A turn in which nothing fails, and two turns in which the first file of the upload
  folder cannot be removed: each of the two turns logs the failure and returns.
\<close>

theorem sweep_cycle_ends_at_first_failure_witness:
  "upload_folder (fs aged_state) = Some
       [\<lparr> fname = ''old_4e5f6a7b.pdf'', mtime = 1762239200, is_file = True, remove_raises = None \<rparr>]
   \<and> converted_folder (fs aged_state) = Some
       [\<lparr> fname = ''old_4e5f6a7b.docx'', mtime = 1762239200, is_file = True, remove_raises = None \<rparr>,
        \<lparr> fname = ''new_8c9d0e1f.docx'', mtime = 1762249900, is_file = True, remove_raises = None \<rparr>]
   \<and> distinct [''old_4e5f6a7b.docx'', ''new_8c9d0e1f.docx'']
   \<and> fst (sweep_cycle local_config sweep_time aged_state) = Inr ()
   \<and> upload_folder (fs (snd (sweep_cycle local_config sweep_time aged_state))) = Some []
   \<and> converted_folder (fs (snd (sweep_cycle local_config sweep_time aged_state))) = Some
       [\<lparr> fname = ''new_8c9d0e1f.docx'', mtime = 1762249900, is_file = True, remove_raises = None \<rparr>]
   \<and> logged (snd (sweep_cycle local_config sweep_time aged_state)) =
       [(INFO, ''Deleted: old_4e5f6a7b.pdf''), (INFO, ''Deleted: old_4e5f6a7b.docx'')]
   \<and> distinct [''locked_0a1b2c3d.pdf'', ''old_4e5f6a7b.pdf'']
   \<and> fst (sweep_cycle local_config sweep_time stale_state) = Inr ()
   \<and> logged (snd (sweep_cycle local_config sweep_time stale_state)) =
       [(ERROR, ''Deletion error: [Errno 13] Permission denied: uploads/locked_0a1b2c3d.pdf'')]
   \<and> fst (delete_old_files local_config (Suc (Suc 0)) (\<lambda>i. sweep_time + 600000000 * int i) stale_state)
       = Inr ()
   \<and> logged (snd (delete_old_files local_config (Suc (Suc 0))
                    (\<lambda>i. sweep_time + 600000000 * int i) stale_state)) =
       [(ERROR, ''Deletion error: [Errno 13] Permission denied: uploads/locked_0a1b2c3d.pdf''),
        (ERROR, ''Deletion error: [Errno 13] Permission denied: uploads/locked_0a1b2c3d.pdf'')]"
  using sweep_cycle_ends_at_first_failure
          [of aged_state
              "[\<lparr> fname = ''old_4e5f6a7b.pdf'', mtime = 1762239200, is_file = True, remove_raises = None \<rparr>]"
              "[\<lparr> fname = ''old_4e5f6a7b.docx'', mtime = 1762239200, is_file = True, remove_raises = None \<rparr>,
                \<lparr> fname = ''new_8c9d0e1f.docx'', mtime = 1762249900, is_file = True, remove_raises = None \<rparr>]"
              local_config sweep_time 0 "\<lambda>i. sweep_time"]
        sweep_cycle_ends_at_first_failure
          [of stale_state
              "[\<lparr> fname = ''locked_0a1b2c3d.pdf'', mtime = 1762239200, is_file = True,
                  remove_raises = Some ''[Errno 13] Permission denied: uploads/locked_0a1b2c3d.pdf'' \<rparr>,
                \<lparr> fname = ''old_4e5f6a7b.pdf'', mtime = 1762239200, is_file = True, remove_raises = None \<rparr>]"
              "[\<lparr> fname = ''old_4e5f6a7b.docx'', mtime = 1762239200, is_file = True, remove_raises = None \<rparr>,
                \<lparr> fname = ''new_8c9d0e1f.docx'', mtime = 1762249900, is_file = True, remove_raises = None \<rparr>]"
              local_config sweep_time "Suc 0" "\<lambda>i. sweep_time + 600000000 * int i"]
  by (simp add: scenario_defs stale_state_def aged_state_def sweep_time_def sweep_defs
        py_defs error_def Let_def)

text \<open>
  In \<open>stale_state\<close> the first file of the upload folder cannot be removed. After the
  turn the expired, removable upload listed after it is still there, and so is the
  expired artifact of the converted folder: the turn has deleted nothing.
\<close>

theorem sweep_cycle_counterexample:
  "is_file \<lparr> fname = ''old_4e5f6a7b.pdf'', mtime = 1762239200, is_file = True, remove_raises = None \<rparr>
   \<and> expired local_config sweep_time
     \<lparr> fname = ''old_4e5f6a7b.pdf'', mtime = 1762239200, is_file = True, remove_raises = None \<rparr>
   \<and> expired local_config sweep_time
     \<lparr> fname = ''old_4e5f6a7b.docx'', mtime = 1762239200, is_file = True, remove_raises = None \<rparr>
   \<and> fs (snd (sweep_cycle local_config sweep_time stale_state)) = fs stale_state
   \<and> upload_folder (fs stale_state) = Some
        [\<lparr> fname = ''locked_0a1b2c3d.pdf'', mtime = 1762239200, is_file = True,
            remove_raises = Some ''[Errno 13] Permission denied: uploads/locked_0a1b2c3d.pdf'' \<rparr>,
         \<lparr> fname = ''old_4e5f6a7b.pdf'', mtime = 1762239200, is_file = True, remove_raises = None \<rparr>]
   \<and> converted_folder (fs stale_state) = Some
        [\<lparr> fname = ''old_4e5f6a7b.docx'', mtime = 1762239200, is_file = True, remove_raises = None \<rparr>,
         \<lparr> fname = ''new_8c9d0e1f.docx'', mtime = 1762249900, is_file = True, remove_raises = None \<rparr>]"
  by (simp add: scenario_defs stale_state_def sweep_time_def sweep_defs py_defs error_def Let_def)


section \<open>Post-processing that fails\<close>

lemma correspondsD:
  "corresponds m m' \<Longrightarrow> agree s t \<Longrightarrow> fst (m s) = fst (m' t) \<and> agree (snd (m s)) (snd (m' t))"
  by (simp add: corresponds_def)

lemma corresponds_return [intro!]: "corresponds (py_return a) (py_return a)"
  by (simp add: corresponds_def py_return_def)

lemma corresponds_raise [intro!]: "corresponds (py_raise e) (py_raise e)"
  by (simp add: corresponds_def py_raise_def)

lemma corresponds_bind [intro!]:
  assumes "corresponds m m'" "\<And>a. corresponds (f a) (f' a)"
  shows "corresponds (py_bind m f) (py_bind m' f')"
proof (unfold corresponds_def, intro allI impI)
  fix s t :: frame
  assume "agree s t"
  from correspondsD [OF assms(1) this]
  have m: "fst (m s) = fst (m' t)" "agree (snd (m s)) (snd (m' t))" by simp_all
  show "fst (py_bind m f s) = fst (py_bind m' f' t)
        \<and> agree (snd (py_bind m f s)) (snd (py_bind m' f' t))"
  proof (cases "fst (m' t)")
    case (Inl e)
    with m show ?thesis by (simp add: py_bind_fst_snd)
  next
    case (Inr a)
    with m correspondsD [OF assms(2) m(2), of a] show ?thesis
      by (simp add: py_bind_fst_snd)
  qed
qed

lemma corresponds_then [intro!]:
  "corresponds m m' \<Longrightarrow> corresponds k k' \<Longrightarrow> corresponds (py_then m k) (py_then m' k')"
  unfolding py_then_def by (rule corresponds_bind)

lemma corresponds_try [intro!]:
  assumes "corresponds m m'" "\<And>e. corresponds (h e) (h' e)"
  shows "corresponds (py_try m h) (py_try m' h')"
proof (unfold corresponds_def, intro allI impI)
  fix s t :: frame
  assume "agree s t"
  from correspondsD [OF assms(1) this]
  have m: "fst (m s) = fst (m' t)" "agree (snd (m s)) (snd (m' t))" by simp_all
  show "fst (py_try m h s) = fst (py_try m' h' t)
        \<and> agree (snd (py_try m h s)) (snd (py_try m' h' t))"
  proof (cases "fst (m' t)")
    case (Inr a)
    with m show ?thesis by (simp add: py_try_fst_snd)
  next
    case (Inl e)
    with m correspondsD [OF assms(2) m(2), of e] show ?thesis
      by (simp add: py_try_fst_snd)
  qed
qed

lemma corresponds_if [intro!]:
  "(c \<Longrightarrow> corresponds a a') \<Longrightarrow> (\<not> c \<Longrightarrow> corresponds b b') \<Longrightarrow>
     corresponds (if c then a else b) (if c then a' else b')"
  by simp

lemma corresponds_state_if:
  assumes "\<And>s t. agree s t \<Longrightarrow> P s = P t" "corresponds a a'" "corresponds b b'"
  shows "corresponds (\<lambda>s. if P s then a s else b s) (\<lambda>s. if P s then a' s else b' s)"
  using assms by (auto simp add: corresponds_def)

lemma agree_fields:
  "agree s t \<Longrightarrow> stats s = stats t" "agree s t \<Longrightarrow> redis s = redis t"
  "agree s t \<Longrightarrow> fs s = fs t" "agree s t \<Longrightarrow> engine_calls s = engine_calls t"
  "agree s t \<Longrightarrow> pdf_path s = pdf_path t" "agree s t \<Longrightarrow> engine s = engine t"
  by (simp_all add: agree_def)

lemma corresponds_log [intro!]:
  "corresponds (info m) (info m')" "corresponds (warning m) (warning m')"
  "corresponds (error m) (error m')"
  by (simp_all add: corresponds_def agree_def)

lemma corresponds_locals [intro!]:
  "corresponds (set_engine e) (set_engine e)" "corresponds (set_pdf_path p) (set_pdf_path p)"
  "corresponds get_engine get_engine"
  by (auto simp add: corresponds_def agree_def get_engine_def split: option.splits)

lemma corresponds_update_stats [intro!]:
  "corresponds (update_stats cfg w b e x) (update_stats cfg (with_rtl w i j k l) b e x)"
  by (simp add: corresponds_def agree_def update_stats_def Let_def with_rtl_def split: option.splits)

lemma corresponds_file_save [intro!]:
  "corresponds (file_save w n) (file_save (with_rtl w i j k l) n)"
  by (simp add: corresponds_def agree_def file_save_def with_rtl_def split: option.splits)

lemma corresponds_get_file_hash [intro!]:
  "corresponds (get_file_hash cfg w f) (get_file_hash cfg (with_rtl w i j k l) f)"
  by (simp add: corresponds_def agree_def get_file_hash_def with_rtl_def split: option.splits)

lemma corresponds_get_cached_result [intro!]:
  "corresponds (get_cached_result cfg w h e) (get_cached_result cfg (with_rtl w i j k l) h e)"
  by (simp add: corresponds_def agree_def get_cached_result_def with_rtl_def split: option.splits)

lemma corresponds_set_cached_result [intro!]:
  "corresponds (set_cached_result cfg w h e n) (set_cached_result cfg (with_rtl w i j k l) h e n)"
  by (simp add: corresponds_def agree_def set_cached_result_def with_rtl_def split: option.splits)

lemma path_exists_with_rtl [simp]:
  "path_exists (with_rtl w i j k l) = path_exists w"
  by (simp add: fun_eq_iff path_exists_def with_rtl_def)

lemma corresponds_remove_upload [intro!]:
  "corresponds (remove_upload w n) (remove_upload (with_rtl w i j k l) n)"
  by (simp add: corresponds_def agree_def remove_upload_def split: sum.splits)

lemma corresponds_remove_pdf_path [intro!]:
  "corresponds (remove_pdf_path w) (remove_pdf_path (with_rtl w i j k l))"
  using corresponds_remove_upload [of w _ i j k l]
  by (auto simp add: corresponds_def remove_pdf_path_def agree_fields split: option.splits)

lemma corresponds_log_memory [intro!]:
  "corresponds (log_memory l r) (log_memory l r)"
  by (simp add: corresponds_def agree_def log_memory_def info_def split: sum.splits)

lemma corresponds_run_pdf2docx [intro!]:
  "corresponds (run_pdf2docx w d) (run_pdf2docx (with_rtl w i j k l) d)"
  by (simp add: corresponds_def agree_def run_pdf2docx_def Let_def with_rtl_def split: option.splits)

lemma corresponds_run_aspose [intro!]:
  "corresponds (run_aspose w v d) (run_aspose (with_rtl w i j k l) v d)"
  by (simp add: corresponds_def agree_def run_aspose_def Let_def with_rtl_def split: option.splits)

lemma corresponds_rtl_step [intro!]:
  "corresponds (rtl_step cfg w d a b) (rtl_step cfg w' d a b)"
  by (simp add: corresponds_def agree_def)


lemma corresponds_standard_branch:
  "corresponds (standard_branch cfg w d) (standard_branch cfg (with_rtl w i j k l) d)"
  unfolding standard_branch_def by (intro corresponds_then corresponds_log
      corresponds_run_pdf2docx corresponds_rtl_step corresponds_return)

lemma corresponds_aspose_branch:
  "corresponds (aspose_branch cfg w d) (aspose_branch cfg (with_rtl w i j k l) d)"
proof -
  have mem: "mem_before (with_rtl w i j k l) = mem_before w"
      "mem_after (with_rtl w i j k l) = mem_after w"
    by (simp_all add: with_rtl_def)
  show ?thesis
    unfolding aspose_branch_def mem
    by (intro corresponds_then corresponds_try corresponds_log corresponds_log_memory
        corresponds_run_aspose corresponds_rtl_step corresponds_return corresponds_raise)
qed

lemma corresponds_fallback_branch:
  "corresponds (fallback_branch cfg w d) (fallback_branch cfg (with_rtl w i j k l) d)"
proof -
  have el: "elapsed (with_rtl w i j k l) = elapsed w"
    by (simp add: with_rtl_def)
  show ?thesis
    unfolding fallback_branch_def el
    by (intro corresponds_if corresponds_then corresponds_bind corresponds_log
        corresponds_run_pdf2docx corresponds_run_aspose corresponds_rtl_step
        corresponds_locals corresponds_update_stats corresponds_return corresponds_raise)
qed

lemma corresponds_select_engine:
  "corresponds (select_engine cfg w d) (select_engine cfg (with_rtl w i j k l) d)"
  unfolding select_engine_def
  by (intro corresponds_bind corresponds_if corresponds_locals corresponds_aspose_branch
      corresponds_standard_branch corresponds_fallback_branch)

lemma corresponds_finish:
  "corresponds (finish cfg w sf d h ok) (finish cfg (with_rtl w i j k l) sf d h ok)"
proof -
  have el: "elapsed (with_rtl w i j k l) = elapsed w"
    by (simp add: with_rtl_def)
  have check: "corresponds
      (\<lambda>s. if \<not> path_exists w CONVERTED_FOLDER d (converted_folder (fs s)) \<or> \<not> ok
           then py_bind get_engine (\<lambda>eng.
                  py_then (update_stats cfg w False eng (elapsed w))
                  (py_then (remove_pdf_path w)
                  (py_raise (HTTPException 500 ''Failed to create the Word file'')))) s
           else (Inr (), s))
      (\<lambda>s. if \<not> path_exists w CONVERTED_FOLDER d (converted_folder (fs s)) \<or> \<not> ok
           then py_bind get_engine (\<lambda>eng.
                  py_then (update_stats cfg (with_rtl w i j k l) False eng (elapsed w))
                  (py_then (remove_pdf_path (with_rtl w i j k l))
                  (py_raise (HTTPException 500 ''Failed to create the Word file'')))) s
           else (Inr (), s))"
  proof (rule corresponds_state_if)
    show "(\<not> path_exists w CONVERTED_FOLDER d (converted_folder (fs s)) \<or> \<not> ok)
          = (\<not> path_exists w CONVERTED_FOLDER d (converted_folder (fs t)) \<or> \<not> ok)" if "agree s t" for s t
      using that by (simp add: agree_fields)
    show "corresponds (py_bind get_engine (\<lambda>eng.
                  py_then (update_stats cfg w False eng (elapsed w))
                  (py_then (remove_pdf_path w)
                  (py_raise (HTTPException 500 ''Failed to create the Word file'')))))
            (py_bind get_engine (\<lambda>eng.
                  py_then (update_stats cfg (with_rtl w i j k l) False eng (elapsed w))
                  (py_then (remove_pdf_path (with_rtl w i j k l))
                  (py_raise (HTTPException 500 ''Failed to create the Word file'')))))"
      by (intro corresponds_bind corresponds_then corresponds_locals corresponds_update_stats
          corresponds_remove_pdf_path corresponds_raise)
    show "corresponds (Pair (Inr ())) (Pair (Inr ()))"
      by (simp add: corresponds_def)
  qed
  show ?thesis
    unfolding finish_def el path_exists_with_rtl
    by (intro corresponds_then corresponds_bind check corresponds_locals
        corresponds_set_cached_result corresponds_remove_upload corresponds_update_stats
        corresponds_log corresponds_return)
qed

lemma corresponds_cache_hit:
  "corresponds (cache_hit cfg w c) (cache_hit cfg (with_rtl w i j k l) c)"
proof -
  have el: "elapsed (with_rtl w i j k l) = elapsed w"
    by (simp add: with_rtl_def)
  show ?thesis
    unfolding cache_hit_def el
    by (intro corresponds_then corresponds_bind corresponds_locals corresponds_update_stats
        corresponds_log corresponds_return)
qed

lemma corresponds_recompute:
  "corresponds (recompute cfg w sf h) (recompute cfg (with_rtl w i j k l) sf h)"
  unfolding recompute_def Let_def
  by (intro corresponds_bind corresponds_select_engine corresponds_finish)

lemma corresponds_after_lookup:
  "corresponds (after_lookup cfg w sf h cr) (after_lookup cfg (with_rtl w i j k l) sf h cr)"
proof (cases cr)
  case None
  then have "after_lookup cfg w' sf h cr = recompute cfg w' sf h" for w'
    by (simp add: after_lookup_def fun_eq_iff)
  then show ?thesis
    by (simp add: corresponds_recompute)
next
  case (Some c)
  then have eq: "after_lookup cfg w' sf h cr =
      (\<lambda>s. if c \<noteq> [] \<and> path_exists w CONVERTED_FOLDER c (converted_folder (fs s))
           then cache_hit cfg w' c s else recompute cfg w' sf h s)"
      if "w' = w \<or> w' = with_rtl w i j k l" for w'
    using that by (auto simp add: after_lookup_def fun_eq_iff)
  show ?thesis
    unfolding eq [of w, simplified] eq [of "with_rtl w i j k l", simplified]
    by (rule corresponds_state_if)
       (simp_all add: agree_fields corresponds_cache_hit corresponds_recompute)
qed

lemma corresponds_convert:
  "corresponds (convert cfg w req f) (convert cfg (with_rtl w i j k l) req f)"
proof -
  have same: "clean_filename cfg (with_rtl w i j k l) n = clean_filename cfg w n" for n
    by (simp add: clean_filename_def with_rtl_def)
  show ?thesis
    unfolding convert_def same Let_def
    by (intro corresponds_then corresponds_bind corresponds_locals corresponds_log
        corresponds_file_save corresponds_get_file_hash corresponds_get_cached_result
        corresponds_after_lookup)
qed

lemma corresponds_post_try:
  "corresponds (post_try cfg w req) (post_try cfg (with_rtl w i j k l) req)"
proof -
  have el: "elapsed (with_rtl w i j k l) = elapsed w"
    by (simp add: with_rtl_def)
  show ?thesis
    unfolding post_try_def el
    by (cases "req_file req")
       (auto intro!: corresponds_then corresponds_update_stats corresponds_raise
          corresponds_convert)
qed

lemma corresponds_post_except:
  "corresponds (post_except cfg w e) (post_except cfg (with_rtl w i j k l) e)"
proof -
  have el: "elapsed (with_rtl w i j k l) = elapsed w"
    by (simp add: with_rtl_def)
  have recorded: "corresponds
      (\<lambda>s. update_stats cfg w False (case engine s of Some eng \<Rightarrow> eng | None \<Rightarrow> ''unknown'')
             (elapsed w) s)
      (\<lambda>s. update_stats cfg (with_rtl w i j k l) False
             (case engine s of Some eng \<Rightarrow> eng | None \<Rightarrow> ''unknown'') (elapsed w) s)"
    unfolding corresponds_def
  proof (intro allI impI)
    fix s t :: frame
    assume a: "agree s t"
    then have "engine s = engine t" by (simp add: agree_fields)
    with correspondsD [OF corresponds_update_stats a,
        of cfg w False "case engine s of Some eng \<Rightarrow> eng | None \<Rightarrow> ''unknown''" "elapsed w" i j k l]
    show "fst (update_stats cfg w False (case engine s of Some eng \<Rightarrow> eng | None \<Rightarrow> ''unknown'')
             (elapsed w) s)
        = fst (update_stats cfg (with_rtl w i j k l) False
             (case engine t of Some eng \<Rightarrow> eng | None \<Rightarrow> ''unknown'') (elapsed w) t)
        \<and> agree (snd (update_stats cfg w False (case engine s of Some eng \<Rightarrow> eng | None \<Rightarrow> ''unknown'')
             (elapsed w) s))
            (snd (update_stats cfg (with_rtl w i j k l) False
             (case engine t of Some eng \<Rightarrow> eng | None \<Rightarrow> ''unknown'') (elapsed w) t))"
      by simp
  qed
  show ?thesis
    unfolding post_except_def el
    by (intro corresponds_then corresponds_log corresponds_remove_pdf_path recorded
        corresponds_raise)
qed

lemma apply_rtl_to_docx_result:
  "fst (apply_rtl_to_docx cfg w p s)
     = (docx_import_raises w = None \<and> \<not> isl (docx_open w) \<and> docx_save_raises w = None)"
  by (simp add: apply_rtl_to_docx_def split: option.splits sum.splits)

text \<open>
  C8. \<open>apply_rtl_to_docx\<close> raises nothing: it returns \<open>False\<close> exactly when the import,
  the opening of the document or the saving fails. Whatever the outcome of
  post-processing is, the request has the same result and leaves the same statistics,
  cache, folders and engine trace: a conversion that succeeds when post-processing
  succeeds also succeeds, with the same response and the same artifact in the converted
  folder, when post-processing fails. Only the log and the documents saved by
  post-processing differ.
\<close>

theorem post_processing_outcome_does_not_matter:
  "fst (post cfg (with_rtl w i j k l) req s) = fst (post cfg w req s)
   \<and> stats (snd (post cfg (with_rtl w i j k l) req s)) = stats (snd (post cfg w req s))
   \<and> redis (snd (post cfg (with_rtl w i j k l) req s)) = redis (snd (post cfg w req s))
   \<and> fs (snd (post cfg (with_rtl w i j k l) req s)) = fs (snd (post cfg w req s))
   \<and> engine_calls (snd (post cfg (with_rtl w i j k l) req s)) = engine_calls (snd (post cfg w req s))
   \<and> fst (apply_rtl_to_docx cfg (with_rtl w i j k l) p s)
       = (i = None \<and> \<not> isl j \<and> l = None)"
proof -
  have "corresponds (py_try (post_try cfg w req) (post_except cfg w))
          (py_try (post_try cfg (with_rtl w i j k l) req) (post_except cfg (with_rtl w i j k l)))"
    by (intro corresponds_try corresponds_post_try corresponds_post_except)
  moreover have "agree (enter s) (enter s)"
    by (simp add: agree_def)
  ultimately have
    "fst (py_try (post_try cfg w req) (post_except cfg w) (enter s))
       = fst (py_try (post_try cfg (with_rtl w i j k l) req) (post_except cfg (with_rtl w i j k l)) (enter s))"
    "agree (snd (py_try (post_try cfg w req) (post_except cfg w) (enter s)))
       (snd (py_try (post_try cfg (with_rtl w i j k l) req) (post_except cfg (with_rtl w i j k l)) (enter s)))"
    by (auto dest: correspondsD)
  moreover have "fst (apply_rtl_to_docx cfg (with_rtl w i j k l) p s)
       = (i = None \<and> \<not> isl j \<and> l = None)"
    by (simp add: apply_rtl_to_docx_result with_rtl_def)
  ultimately show ?thesis
    by (simp add: post_def agree_def case_prod_beta)
qed

theorem post_processing_outcome_does_not_matter_witness:
  "\<not> fst (apply_rtl_to_docx local_config
          (with_rtl quiet_world None (Inl ''Package not found at report_1a2b3c4d.docx'') (\<lambda>t. None) None)
          ''report_1a2b3c4d.docx'' initial_state)
   \<and> fst (post local_config
          (with_rtl quiet_world None (Inl ''Package not found at report_1a2b3c4d.docx'') (\<lambda>t. None) None)
          pdf_request initial_state)
       = Inr \<lparr> success = True, message = ''Converted successfully!'',
               filename = ''report_1a2b3c4d.docx'', engine_used = ''standard'',
               download_url = ''/download/report_1a2b3c4d.docx'',
               processing_time = Some 2, cached = False \<rparr>
   \<and> path_exists quiet_world CONVERTED_FOLDER ''report_1a2b3c4d.docx''
        (converted_folder (fs (snd (post local_config
          (with_rtl quiet_world None (Inl ''Package not found at report_1a2b3c4d.docx'') (\<lambda>t. None) None)
          pdf_request initial_state))))
   \<and> docx_saves (snd (post local_config
          (with_rtl quiet_world None (Inl ''Package not found at report_1a2b3c4d.docx'') (\<lambda>t. None) None)
          pdf_request initial_state)) = []"
  using post_processing_outcome_does_not_matter
          [of local_config quiet_world None "Inl ''Package not found at report_1a2b3c4d.docx''"
              "\<lambda>t. None" None pdf_request initial_state "''report_1a2b3c4d.docx''"]
  by (simp add: eval_defs with_rtl_def)

end
